theory Spec2Isabelle
  imports Complex_Main "HOL-Library.Multiset"
begin

section \<open>Python strings and exceptions\<close>

text \<open>
  A Python \<^verbatim>\<open>str\<close> is a sequence of Unicode code points. The sources contain code
  points beyond one byte (the markers in front of the messages), and \<^verbatim>\<open>str.strip()\<close>
  removes Unicode white space, so a string is modelled as the list of its code points.
  \<open>lit\<close> turns an ASCII literal into such a list.
\<close>

type_synonym str = "nat list"

definition lit :: "string \<Rightarrow> str" where
  "lit s = map of_char s"

text \<open>The code points for which \<^verbatim>\<open>str.isspace()\<close> holds; \<^verbatim>\<open>str.strip()\<close> removes these.\<close>

definition isspace :: "nat \<Rightarrow> bool" where
  "isspace c \<longleftrightarrow>
     (0x09 \<le> c \<and> c \<le> 0x0D) \<or> (0x1C \<le> c \<and> c \<le> 0x20) \<or> c = 0x85 \<or> c = 0xA0 \<or>
     c = 0x1680 \<or> (0x2000 \<le> c \<and> c \<le> 0x200A) \<or> c = 0x2028 \<or> c = 0x2029 \<or>
     c = 0x202F \<or> c = 0x205F \<or> c = 0x3000"

definition strip_where :: "(nat \<Rightarrow> bool) \<Rightarrow> str \<Rightarrow> str" where
  "strip_where p s = rev (dropWhile p (rev (dropWhile p s)))"

text \<open>\<^verbatim>\<open>s.strip()\<close>\<close>

definition strip :: "str \<Rightarrow> str" where
  "strip s = strip_where isspace s"

text \<open>
  \<^verbatim>\<open>s.strip(chars)\<close>: the argument is a set of characters, each of which is removed from
  both ends; it is not a prefix or suffix.
\<close>

definition strip_chars :: "str \<Rightarrow> str \<Rightarrow> str" where
  "strip_chars chars s = strip_where (List.member chars) s"

text \<open>\<^verbatim>\<open>s.startswith(p)\<close>\<close>

definition startswith :: "str \<Rightarrow> str \<Rightarrow> bool" where
  "startswith s p \<longleftrightarrow> take (length p) s = p"

text \<open>
  The exceptions of the modelled code, all subclasses of \<^verbatim>\<open>Exception\<close>; \<open>message\<close> is
  \<^verbatim>\<open>str(e)\<close>.
\<close>

datatype exn =
    Exception str
  | RuntimeError str
  | ValueError str
  | KeyError str
  | AttributeError str
  | IndexError str
  | AssertionError

fun message :: "exn \<Rightarrow> str" where
  "message (Exception m) = m"
| "message (RuntimeError m) = m"
| "message (ValueError m) = m"
| "message (KeyError k) = [39] @ k @ [39]"
| "message (AttributeError m) = m"
| "message (IndexError m) = m"
| "message AssertionError = []"

text \<open>\<^verbatim>\<open>xs[i]\<close> on a Python list: a negative index counts from the end.\<close>

definition getitem :: "'a list \<Rightarrow> int \<Rightarrow> exn + 'a" where
  "getitem xs i =
     (if 0 \<le> i \<and> i < int (length xs) then Inr (xs ! nat i)
      else if i < 0 \<and> - int (length xs) \<le> i then Inr (xs ! nat (int (length xs) + i))
      else Inl (IndexError (lit ''list index out of range'')))"

section \<open>The prompt (gemini\_utils.py)\<close>

text \<open>
  \<^verbatim>\<open>SYSTEM_PROMPT_TEMPLATE\<close>, one list element per source line: the text before the
  placeholder, the placeholder \<^verbatim>\<open>{retrieved_context}\<close>, and the text after it.
\<close>

definition TEMPLATE_HEAD :: str where
  "TEMPLATE_HEAD = concat
    [ [10],
     lit ''You are a helpful and precise assistant that converts user questions into valid PostgreSQL SELECT queries.'' @ [10],
     [10],
     lit ''You are working with a PostgreSQL database called `ecommerce_data` containing these **exact tables and columns**:'' @ [10],
     [10],
     [0xf8ff, 0xfc, 0xec, 0xe5] @ lit '' Table: `sales_summary`'' @ [10],
     lit ''- date'' @ [10],
     lit ''- item_id'' @ [10],
     lit ''- total_sales'' @ [10],
     lit ''- total_units_ordered'' @ [10],
     [10],
     [0xf8ff, 0xfc, 0xec, 0xe5] @ lit '' Table: `ad_data`'' @ [10],
     lit ''- date'' @ [10],
     lit ''- item_id'' @ [10],
     lit ''- ad_sales'' @ [10],
     lit ''- impressions'' @ [10],
     lit ''- ad_spend'' @ [10],
     lit ''- clicks'' @ [10],
     lit ''- units_sold'' @ [10],
     [10],
     [0xf8ff, 0xfc, 0xec, 0xe5] @ lit '' Table: `eligibility_status`'' @ [10],
     lit ''- eligibility_datetime_utc'' @ [10],
     lit ''- item_id'' @ [10],
     lit ''- eligibility'' @ [10],
     lit ''- message'' @ [10],
     [10],
     [0x201a, 0xf6, 0x2020, 0xd4, 0x220f, 0xe8] @ lit '' Use these **exact table names**: `sales_summary`, `ad_data`, `eligibility_status`. Do NOT invent or singularize them (e.g., do NOT use `ad_sale` or `total_sale`).'' @ [10],
     [10],
     [0xf8ff, 0xfc, 0xdf, 0x2020] @ lit '' Rules:'' @ [10],
     lit ''- Only return valid **PostgreSQL** SELECT statements.'' @ [10],
     lit ''- Avoid division by zero. Use WHERE clause or CASE WHEN to prevent it.'' @ [10],
     lit ''- Do not explain or format output.'' @ [10],
     lit ''- Return pure SQL (no ```sql or comments).'' @ [10],
     lit ''- Do not add LIMIT unless explicitly asked.'' @ [10],
     [10] ]"

definition TEMPLATE_TAIL :: str where
  "TEMPLATE_TAIL = concat
    [ [10],
     [10],
     lit ''Here are some examples:'' @ [10],
     lit ''Q: What is the total revenue?'' @ [10],
     lit ''A: SELECT SUM(total_sales) FROM sales_summary;'' @ [10],
     [10],
     lit ''Q: Show all ad-related metrics.'' @ [10],
     lit ''A: SELECT * FROM ad_data;'' @ [10],
     [10],
     lit ''Q: Show eligibility status of items.'' @ [10],
     lit ''A: SELECT item_id, eligibility, message FROM eligibility_status;'' @ [10],
     [10],
     lit ''Now convert the user'' @ [39] @ lit ''s question to a valid SQL query.'' @ [10] ]"

definition PLACEHOLDER_NAME :: str where
  "PLACEHOLDER_NAME = lit ''retrieved_context''"

definition SYSTEM_PROMPT_TEMPLATE :: str where
  "SYSTEM_PROMPT_TEMPLATE = TEMPLATE_HEAD @ [0x7B] @ PLACEHOLDER_NAME @ [0x7D] @ TEMPLATE_TAIL"

text \<open>
  \<^verbatim>\<open>template.format(retrieved_context=value)\<close>. The format string is scanned from the
  left: \<^verbatim>\<open>{{\<close> and \<^verbatim>\<open>}}\<close> are escaped braces, \<^verbatim>\<open>{name}\<close> is a replacement field, a
  single \<^verbatim>\<open>}\<close> or an unclosed \<^verbatim>\<open>{\<close> raises ValueError, and a field whose name is not
  the keyword argument raises KeyError. The value is inserted as it is (it is not scanned
  again). Fields with a conversion or a format specification do not occur in the
  template and are not modelled.
\<close>

fun format_text :: "str \<Rightarrow> str \<Rightarrow> str \<Rightarrow> exn + str"
  and format_field :: "str \<Rightarrow> str \<Rightarrow> str \<Rightarrow> str \<Rightarrow> exn + str" where
  "format_text name v [] = Inr []"
| "format_text name v (c # cs) =
     (if c = 0x7B then
        (case cs of
           [] \<Rightarrow> Inl (ValueError (lit ''Single '' @ [39, 0x7B, 39] @ lit '' encountered in format string''))
         | c' # cs' \<Rightarrow>
             if c' = 0x7B then map_sum id ((#) 0x7B) (format_text name v cs')
             else format_field name v [] cs)
      else if c = 0x7D then
        (case cs of
           [] \<Rightarrow> Inl (ValueError (lit ''Single '' @ [39, 0x7D, 39] @ lit '' encountered in format string''))
         | c' # cs' \<Rightarrow>
             if c' = 0x7D then map_sum id ((#) 0x7D) (format_text name v cs')
             else Inl (ValueError (lit ''Single '' @ [39, 0x7D, 39] @ lit '' encountered in format string'')))
      else map_sum id ((#) c) (format_text name v cs))"
| "format_field name v acc [] =
     Inl (ValueError (lit ''expected '' @ [39, 0x7D, 39] @ lit '' before end of string''))"
| "format_field name v acc (c # cs) =
     (if c = 0x7D then
        (if rev acc = name then map_sum id ((@) v) (format_text name v cs)
         else Inl (KeyError (rev acc)))
      else format_field name v (c # acc) cs)"

text \<open>\<^verbatim>\<open>SYSTEM_PROMPT_TEMPLATE.format(retrieved_context=retrieved_context_str)\<close>\<close>

definition format_template :: "str \<Rightarrow> exn + str" where
  "format_template retrieved_context_str =
     format_text PLACEHOLDER_NAME retrieved_context_str SYSTEM_PROMPT_TEMPLATE"

text \<open>
  Lines 181--184: the context block. The loop appends one bullet per retrieved index, in
  the order of \<^verbatim>\<open>indices[0]\<close>; \<^verbatim>\<open>context_texts[idx]\<close> raises IndexError out of range.
\<close>

definition CONTEXT_HEADER :: str where
  "CONTEXT_HEADER = [10, 10] @ lit ''Relevant Context for your question:'' @ [10]"

definition bullet :: "str \<Rightarrow> str" where
  "bullet doc = lit ''- '' @ doc @ [10]"

fun add_bullets :: "str list \<Rightarrow> str \<Rightarrow> int list \<Rightarrow> exn + str" where
  "add_bullets context_texts retrieved_context_str [] = Inr retrieved_context_str"
| "add_bullets context_texts retrieved_context_str (idx # idxs) =
     (case getitem context_texts idx of
        Inl e \<Rightarrow> Inl e
      | Inr doc \<Rightarrow> add_bullets context_texts (retrieved_context_str @ bullet doc) idxs)"

definition retrieved_context :: "str list \<Rightarrow> int list \<Rightarrow> exn + str" where
  "retrieved_context context_texts indices = add_bullets context_texts CONTEXT_HEADER indices"

text \<open>Lines 187--190: the template is filled in and the question appended.\<close>

definition QUESTION_LABEL :: str where
  "QUESTION_LABEL = [10, 10] @ lit ''User Question: ''"

definition SQL_LABEL :: str where
  "SQL_LABEL = [10] @ lit ''SQL Query:''"

definition assemble_prompt :: "str \<Rightarrow> str \<Rightarrow> exn + str" where
  "assemble_prompt retrieved_context_str question =
     (case format_template retrieved_context_str of
        Inl e \<Rightarrow> Inl e
      | Inr final_system_prompt \<Rightarrow> Inr (final_system_prompt @ QUESTION_LABEL @ question @ SQL_LABEL))"

text \<open>Line 195: \<^verbatim>\<open>response.text.strip().strip("```sql").strip("```").strip()\<close>\<close>

definition extract_sql :: "str \<Rightarrow> str" where
  "extract_sql text =
     strip (strip_chars (lit ''```'') (strip_chars (lit ''```sql'') (strip text)))"

section \<open>The similarity index (faiss.IndexFlatL2)\<close>

text \<open>
  \<^verbatim>\<open>faiss\<close> is a library outside the repository; the index is modelled by what the
  library documents. An \<^verbatim>\<open>IndexFlatL2\<close> of dimension \<open>d\<close> stores the added vectors in
  insertion order, and the label of a vector is its position. \<^verbatim>\<open>search(x, k)\<close> compares
  each query with every stored vector and returns, for each query, exactly \<open>k\<close> pairs of
  distance and label in ascending distance. The result starts as \<open>k\<close> entries with the
  label \<open>-1\<close> and the largest float as distance, and a stored vector replaces an entry
  only when its distance is smaller; so a vector whose distance is not below the largest
  float never enters, and when fewer than \<open>k\<close> vectors enter, the entries left over keep
  the label \<open>-1\<close>. The Python wrapper asserts that the dimensions agree.

  The library evaluates the squared Euclidean distance in float32, with its own
  rounding and order of summation. That evaluation is not fixed here: it is a parameter
  (a \<open>kernel\<close>) which gives the float it computes as the real number the float denotes, or
  \<open>None\<close> when the result is NaN or infinite. A float32 component of a vector is likewise
  the real number it denotes. Among equal distances the model keeps insertion order;
  the library leaves the order of ties open, and no statement below depends on it.
\<close>

type_synonym vec = "real list"

type_synonym kernel = "vec \<Rightarrow> vec \<Rightarrow> real option"

record IndexFlatL2 =
  index_d :: nat
  index_xb :: "vec list"

definition new_IndexFlatL2 :: "nat \<Rightarrow> IndexFlatL2" where
  "new_IndexFlatL2 dimension = \<lparr>index_d = dimension, index_xb = []\<rparr>"

definition ntotal :: "IndexFlatL2 \<Rightarrow> nat" where
  "ntotal ix = length (index_xb ix)"

definition index_add :: "IndexFlatL2 \<Rightarrow> vec list \<Rightarrow> exn + IndexFlatL2" where
  "index_add ix embeddings =
     (if list_all (\<lambda>v. length v = index_d ix) embeddings
      then Inr (ix\<lparr>index_xb := index_xb ix @ embeddings\<rparr>)
      else Inl AssertionError)"

definition FLT_MAX :: real where
  "FLT_MAX = 340282346638528859811704183484516925440"

text \<open>The stored vectors that enter the result, each with its distance and its label.\<close>

definition scored :: "kernel \<Rightarrow> IndexFlatL2 \<Rightarrow> vec \<Rightarrow> (real \<times> int) list" where
  "scored L2sqr ix q =
     concat (map (\<lambda>(i, v). case L2sqr q v of
                               None \<Rightarrow> []
                             | Some dis \<Rightarrow> if dis < FLT_MAX then [(dis, int i)] else [])
               (enumerate 0 (index_xb ix)))"

definition ranked :: "kernel \<Rightarrow> IndexFlatL2 \<Rightarrow> vec \<Rightarrow> (real \<times> int) list" where
  "ranked L2sqr ix q = sort_key fst (scored L2sqr ix q)"

definition knn :: "kernel \<Rightarrow> IndexFlatL2 \<Rightarrow> vec \<Rightarrow> nat \<Rightarrow> (real \<times> int) list" where
  "knn L2sqr ix q k =
     (let best = take k (ranked L2sqr ix q)
      in best @ replicate (k - length best) (FLT_MAX, - 1))"

definition index_search ::
  "kernel \<Rightarrow> IndexFlatL2 \<Rightarrow> vec list \<Rightarrow> nat \<Rightarrow> exn + (real \<times> int) list list" where
  "index_search L2sqr ix x k =
     (if list_all (\<lambda>q. length q = index_d ix) x
      then Inr (map (\<lambda>q. knn L2sqr ix q k) x)
      else Inl AssertionError)"

section \<open>The retrieval state and its initialisation (gemini\_utils.py)\<close>

text \<open>
  The collaborators outside the repository are parameters: the constructor of the
  sentence encoder and its \<^verbatim>\<open>encode\<close>, the distance kernel of the index, the
  generative model (\<^verbatim>\<open>generate_content\<close> followed by \<^verbatim>\<open>response.text\<close>), and the
  database (\<^verbatim>\<open>conn.execute\<close>). Each call returns its value or the exception it raises.
\<close>

datatype encoder = Encoder

type_synonym row = "(str \<times> str) list"

record world =
  SentenceTransformer :: "exn + encoder"
  encode :: "str list \<Rightarrow> exn + vec list"
  fvec_L2sqr :: kernel
  generate_content :: "str \<Rightarrow> exn + str"
  execute :: "str \<Rightarrow> exn + row list"

text \<open>
  A persisted artifact is absent, unreadable, or holds a value. The module's globals,
  the two artifacts and a trace of the calls made to the index, the generative model and
  the database form the state. Writing an artifact is taken to succeed. A readable
  context artifact holds a JSON array of strings, which is what the program writes; other
  JSON values are not modelled.
\<close>

datatype 'a artifact = Absent | Corrupt | Stored 'a

datatype event = Search "vec list" nat | Generate str | Execute str

record state =
  embedding_model :: "encoder option"
  faiss_index :: "IndexFlatL2 option"
  context_texts :: "str list"
  FAISS_INDEX_PATH :: "IndexFlatL2 artifact"
  CONTEXT_DATA_PATH :: "str list artifact"
  trace :: "event list"

definition path_exists :: "'a artifact \<Rightarrow> bool" where
  "path_exists f \<longleftrightarrow> f \<noteq> Absent"

definition read_file :: "'a artifact \<Rightarrow> exn + 'a" where
  "read_file f =
     (case f of
        Stored x \<Rightarrow> Inr x
      | Corrupt \<Rightarrow> Inl (Exception (lit ''could not read the artifact''))
      | Absent \<Rightarrow> Inl (Exception (lit ''No such file or directory'')))"

text \<open>The knowledge base of lines 60--91.\<close>

definition knowledge_base_documents :: "str list" where
  "knowledge_base_documents =
    [lit ''Table: sales_summary, Columns: date (date), item_id (numeric ID), total_sales (numeric), total_units_ordered (numeric). Describes daily sales and units for items. Use for questions about sales, units, or item performance.'',
     lit ''Table: ad_data, Columns: date (date), item_id (numeric ID), ad_sales (numeric), impressions (numeric), ad_spend (numeric), clicks (numeric), units_sold (numeric). Contains advertising performance metrics. Use for questions about ads, spend, impressions, clicks, or ad-related sales.'',
     lit ''Table: eligibility_status, Columns: eligibility_datetime_utc (datetime), item_id (numeric ID), eligibility (text/boolean), message (text). Tracks item eligibility status. Use for questions about eligibility or status.'',
     lit ''Q: What is the total revenue? A: SELECT SUM(total_sales) FROM sales_summary;'',
     lit ''Q: Show all ad-related metrics. A: SELECT * FROM ad_data;'',
     lit ''Q: Show eligibility status of items. A: SELECT item_id, eligibility, message FROM eligibility_status;'',
     lit ''Q: What is the highest CPC? A: SELECT MAX(ad_spend / clicks) FROM ad_data WHERE clicks > 0;'',
     lit ''Q: What is the total sales for each item? A: SELECT item_id, SUM(total_sales) AS total_sales_per_item FROM sales_summary GROUP BY item_id ORDER BY total_sales_per_item DESC;'',
     lit ''Q: Show me monthly ad spend over time. A: SELECT TO_CHAR(date, '' @ [39] @ lit ''YYYY-MM'' @ [39] @ lit '') AS month, SUM(ad_spend) AS monthly_ad_spend FROM ad_data GROUP BY TO_CHAR(date, '' @ [39] @ lit ''YYYY-MM'' @ [39] @ lit '') ORDER BY TO_CHAR(date, '' @ [39] @ lit ''YYYY-MM'' @ [39] @ lit '');'',
     lit ''Q: Compare ad spend vs. ad sales for different items. A: SELECT item_id, SUM(ad_spend) AS total_ad_spend, SUM(ad_sales) AS total_ad_sales FROM ad_data GROUP BY item_id;'',
     lit ''Q: What is the average daily units ordered? A: SELECT AVG(total_units_ordered) FROM sales_summary;'',
     lit ''Q: Which item has the most impressions? A: SELECT item_id, SUM(impressions) AS total_impressions FROM ad_data GROUP BY item_id ORDER BY total_impressions DESC LIMIT 1;'',
     lit ''Q: How many items are currently eligible? A: SELECT COUNT(DISTINCT item_id) FROM eligibility_status WHERE eligibility = '' @ [39] @ lit ''true'' @ [39] @ lit '';'',
     lit ''Column: total_sales (sales_summary) - monetary value of sales.'',
     lit ''Column: total_units_ordered (sales_summary) - quantity of items sold.'',
     lit ''Column: ad_spend (ad_data) - money spent on advertising campaigns.'',
     lit ''Column: ad_sales (ad_data) - sales directly generated from ads.'',
     lit ''Column: clicks (ad_data) - number of times ads were clicked.'',
     lit ''Column: impressions (ad_data) - number of times ads were shown.'',
     lit ''Column: units_sold (ad_data) - quantity of units sold through advertising.'',
     lit ''Column: eligibility (eligibility_status) - status of an item'' @ [39] @ lit ''s eligibility (e.g., '' @ [39] @ lit ''true'' @ [39] @ lit '', '' @ [39] @ lit ''false'' @ [39] @ lit '', '' @ [39] @ lit ''eligible'' @ [39] @ lit '', '' @ [39] @ lit ''not eligible'' @ [39] @ lit '').'',
     lit ''Calculation: ROAS (Return on Ad Spend) = SUM(ad_sales) / SUM(ad_spend).'',
     lit ''Calculation: CPC (Cost Per Click) = ad_spend / clicks.'',
     lit ''Calculation: CTR (Click-Through Rate) = clicks / impressions.'',
     lit ''Always use TO_CHAR(date_column, '' @ [39] @ lit ''YYYY-MM'' @ [39] @ lit '') for monthly grouping in PostgreSQL.'']"

text \<open>Lines 32--40.\<close>

definition load_embedding_model :: "world \<Rightarrow> state \<Rightarrow> exn option \<times> state" where
  "load_embedding_model w s =
     (if embedding_model s = None then
        (case SentenceTransformer w of
           Inl e \<Rightarrow> (Some (RuntimeError (lit ''Could not load embedding model: '' @ message e)), s)
         | Inr m \<Rightarrow> (None, s\<lparr>embedding_model := Some m\<rparr>))
      else (None, s))"

text \<open>
  Lines 44--54: both artifacts are read when both exist; any exception while reading
  resets the two globals. Nothing else is checked.
\<close>

definition load_from_disk :: "state \<Rightarrow> state" where
  "load_from_disk s =
     (if path_exists (FAISS_INDEX_PATH s) \<and> path_exists (CONTEXT_DATA_PATH s) then
        (case read_file (FAISS_INDEX_PATH s) of
           Inl e \<Rightarrow> s\<lparr>faiss_index := None, context_texts := []\<rparr>
         | Inr ix \<Rightarrow>
             (case read_file (CONTEXT_DATA_PATH s) of
                Inl e \<Rightarrow> s\<lparr>faiss_index := None, context_texts := []\<rparr>
              | Inr texts \<Rightarrow> s\<lparr>faiss_index := Some ix, context_texts := texts\<rparr>))
      else s)"

text \<open>
  Lines 57--106: the index is built from the knowledge base and both artifacts are
  written. An exception of the encoder or of the index leaves through the function; the
  assignments made before it stay.
\<close>

definition build_index :: "world \<Rightarrow> state \<Rightarrow> exn option \<times> state" where
  "build_index w s =
     (let s1 = s\<lparr>context_texts := knowledge_base_documents\<rparr> in
      case encode w knowledge_base_documents of
        Inl e \<Rightarrow> (Some e, s1)
      | Inr embeddings \<Rightarrow>
          (case embeddings of
             [] \<Rightarrow> (Some (IndexError (lit ''tuple index out of range'')), s1)
           | v # _ \<Rightarrow>
               (let ix0 = new_IndexFlatL2 (length v);
                    s2 = s1\<lparr>faiss_index := Some ix0\<rparr>
                in case index_add ix0 embeddings of
                     Inl e \<Rightarrow> (Some e, s2)
                   | Inr ix \<Rightarrow>
                       (None, s2\<lparr>faiss_index := Some ix,
                                 FAISS_INDEX_PATH := Stored ix,
                                 CONTEXT_DATA_PATH := Stored (context_texts s2)\<rparr>))))"

definition initialize_rag_components :: "world \<Rightarrow> state \<Rightarrow> exn option \<times> state" where
  "initialize_rag_components w s =
     (case load_embedding_model w s of
        (Some e, s1) \<Rightarrow> (Some e, s1)
      | (None, s1) \<Rightarrow>
          (if faiss_index s1 = None then
             (let s2 = load_from_disk s1
              in if faiss_index s2 = None then build_index w s2 else (None, s2))
           else (None, s1)))"

section \<open>The pipeline (gemini\_utils.py, get\_sql\_from\_question)\<close>

text \<open>
  Lines 177--179: the question is encoded and the index searched with \<open>k = 3\<close>. The
  result holds, for each row of the query, the pairs of distance and label; \<^verbatim>\<open>distances\<close>
  are their first and \<^verbatim>\<open>indices\<close> their second components.
\<close>

definition similarity_search ::
  "world \<Rightarrow> str \<Rightarrow> state \<Rightarrow> (exn + (real \<times> int) list list) \<times> state" where
  "similarity_search w question s =
     (case embedding_model s of
        None \<Rightarrow> (Inl (AttributeError (lit ''encode'')), s)
      | Some m \<Rightarrow>
     (case encode w [question] of
        Inl e \<Rightarrow> (Inl e, s)
      | Inr query_embedding \<Rightarrow>
     (case faiss_index s of
        None \<Rightarrow> (Inl (AttributeError (lit ''search'')), s)
      | Some ix \<Rightarrow>
          (index_search (fvec_L2sqr w) ix query_embedding 3,
           s\<lparr>trace := trace s @ [Search query_embedding 3]\<rparr>))))"

text \<open>Lines 181--184: the context block is built from \<^verbatim>\<open>indices[0]\<close>.\<close>

definition retrieve :: "world \<Rightarrow> str \<Rightarrow> state \<Rightarrow> (exn + str) \<times> state" where
  "retrieve w question s =
     (case similarity_search w question s of
        (Inl e, s1) \<Rightarrow> (Inl e, s1)
      | (Inr results, s1) \<Rightarrow>
          (case getitem (map (map snd) results) 0 of
             Inl e \<Rightarrow> (Inl e, s1)
           | Inr indices0 \<Rightarrow> (retrieved_context (context_texts s1) indices0, s1)))"

text \<open>Lines 172--198, the body of the \<^verbatim>\<open>try\<close>.\<close>

definition get_sql_try :: "world \<Rightarrow> str \<Rightarrow> state \<Rightarrow> (exn + str) \<times> state" where
  "get_sql_try w question s =
     (case (if embedding_model s = None \<or> faiss_index s = None
            then initialize_rag_components w s else (None, s)) of
        (Some e, s1) \<Rightarrow> (Inl e, s1)
      | (None, s1) \<Rightarrow>
     (case retrieve w question s1 of
        (Inl e, s2) \<Rightarrow> (Inl e, s2)
      | (Inr retrieved_context_str, s2) \<Rightarrow>
     (case assemble_prompt retrieved_context_str question of
        Inl e \<Rightarrow> (Inl e, s2)
      | Inr prompt \<Rightarrow>
          (let s3 = s2\<lparr>trace := trace s2 @ [Generate prompt]\<rparr> in
           case generate_content w prompt of
             Inl e \<Rightarrow> (Inl e, s3)
           | Inr text \<Rightarrow> (Inr (extract_sql text), s3)))))"

text \<open>
  Lines 199--201: the handler of the \<^verbatim>\<open>try\<close>. The marker in front of the message is
  the three code points U+201A, U+00F9, U+00E5 that the source file holds there.
\<close>

definition ERROR_GENERATING_SQL :: str where
  "ERROR_GENERATING_SQL = [0x201A, 0xF9, 0xE5] @ lit '' Error generating SQL: ''"

definition get_sql_from_question :: "world \<Rightarrow> str \<Rightarrow> state \<Rightarrow> str \<times> state" where
  "get_sql_from_question w question s =
     (case get_sql_try w question s of
        (Inl e, s1) \<Rightarrow> (ERROR_GENERATING_SQL @ message e, s1)
      | (Inr sql_query, s1) \<Rightarrow> (sql_query, s1))"

section \<open>The routes (run.py)\<close>

datatype body =
    ErrorBody str
  | RowsBody "row list"
  | AnswerBody str str "row list"

type_synonym response = "body \<times> nat"

definition VALID_TABLES :: "str list" where
  "VALID_TABLES = [lit ''sales_summary'', lit ''ad_data'', lit ''eligibility_status'']"

text \<open>Lines 37--48, \<^verbatim>\<open>/api/data/<table_name>\<close>.\<close>

definition get_table_data :: "world \<Rightarrow> str \<Rightarrow> state \<Rightarrow> response \<times> state" where
  "get_table_data w table_name s =
     (if \<not> List.member VALID_TABLES table_name
      then ((ErrorBody (lit ''Invalid table name.''), 400), s)
      else
        (let sql = lit ''SELECT * FROM '' @ table_name;
             s1 = s\<lparr>trace := trace s @ [Execute sql]\<rparr>
         in case execute w sql of
              Inl e \<Rightarrow> ((ErrorBody (message e), 500), s1)
            | Inr rows \<Rightarrow> ((RowsBody rows, 200), s1)))"

text \<open>
  Lines 50--81, \<^verbatim>\<open>/api/ask\<close>. The argument is \<^verbatim>\<open>data.get('question')\<close>: \<open>None\<close> when the
  key is missing, the string otherwise; a body that is not a JSON object, which raises at
  line 54 and is answered with status 500, is not modelled. The prefix tested at line 64
  starts with the code point U+274C.
\<close>

definition ERROR_MARKER :: str where
  "ERROR_MARKER = [0x274C] @ lit '' Error''"

definition ask :: "world \<Rightarrow> str option \<Rightarrow> state \<Rightarrow> response \<times> state" where
  "ask w question s =
     (case question of
        None \<Rightarrow> ((ErrorBody (lit ''No question provided.''), 400), s)
      | Some q \<Rightarrow>
          (if q = [] then ((ErrorBody (lit ''No question provided.''), 400), s)
           else
             (case get_sql_from_question w q s of
                (sql_query, s1) \<Rightarrow>
                  (if startswith sql_query ERROR_MARKER then ((ErrorBody sql_query, 500), s1)
                   else
                     (let s2 = s1\<lparr>trace := trace s1 @ [Execute sql_query]\<rparr>
                      in case execute w sql_query of
                           Inl e \<Rightarrow> ((ErrorBody (message e), 500), s2)
                         | Inr rows \<Rightarrow> ((AnswerBody q sql_query rows, 200), s2))))))"

section \<open>The question form (app.py)\<close>

text \<open>Lines 107--114: the button handler posts the question unless it is blank.\<close>

datatype ui = Warning str | Posted response

definition ask_button :: "world \<Rightarrow> str \<Rightarrow> state \<Rightarrow> ui \<times> state" where
  "ask_button w question s =
     (if strip question = []
      then (Warning ([0x26A0, 0xFE0F] @ lit '' Please enter a question.''), s)
      else (case ask w (Some question) s of (r, s1) \<Rightarrow> (Posted r, s1)))"

section \<open>The loader's preprocessing (dataload.py)\<close>

text \<open>
  \<^verbatim>\<open>pandas\<close> is a library outside the repository; a column is modelled by its dtype and
  its cells. \<open>Numeric\<close> stands for the integer and float dtypes. What the library computes
  from the text of a value is a parameter: \<open>to_double\<close> is the number a string parses to
  (\<open>None\<close> when it is not a number, which \<^verbatim>\<open>errors='coerce'\<close> turns into NaN),
  \<open>number_str\<close> and \<open>time_str\<close> print a value, \<open>to_timestamp\<close> is \<^verbatim>\<open>pd.to_datetime\<close> on
  one value. Infinite floats and frames with two columns of one name are not modelled.
\<close>

datatype dtype = Object | Numeric | Boolean | Datetime

datatype cell = Str str | Num real | NaN | Bool bool | Time int | NaT

record series =
  dtype :: dtype
  cells :: "cell list"

type_synonym dataframe = "(str \<times> series) list"

record pandas =
  to_double :: "str \<Rightarrow> real option"
  number_str :: "real \<Rightarrow> str"
  time_str :: "int \<Rightarrow> str"
  to_timestamp :: "cell \<Rightarrow> int option"

text \<open>\<^verbatim>\<open>str.lower()\<close> on the letters A to Z; other code points are left as they are.\<close>

definition lower :: "str \<Rightarrow> str" where
  "lower s = map (\<lambda>c. if 0x41 \<le> c \<and> c \<le> 0x5A then c + 32 else c) s"

text \<open>\<^verbatim>\<open>s.replace(" ", "_")\<close>\<close>

definition replace_space :: "str \<Rightarrow> str" where
  "replace_space s = map (\<lambda>c. if c = 0x20 then 0x5F else c) s"

text \<open>\<^verbatim>\<open>series.astype(str)\<close>, cell by cell.\<close>

fun astype_str :: "pandas \<Rightarrow> cell \<Rightarrow> str" where
  "astype_str pd (Str s) = s"
| "astype_str pd (Num x) = number_str pd x"
| "astype_str pd NaN = lit ''nan''"
| "astype_str pd (Bool b) = (if b then lit ''True'' else lit ''False'')"
| "astype_str pd (Time t) = time_str pd t"
| "astype_str pd NaT = lit ''NaT''"

definition series_astype_str :: "pandas \<Rightarrow> series \<Rightarrow> series" where
  "series_astype_str pd col = \<lparr>dtype = Object, cells = map (Str \<circ> astype_str pd) (cells col)\<rparr>"

text \<open>Line 47: the characters of the class \<^verbatim>\<open>[$,% ]\<close> and the rupee sign are removed.\<close>

definition clean :: "str \<Rightarrow> str" where
  "clean s = filter (\<lambda>c. \<not> List.member [0x20B9, 0x24, 0x2C, 0x25, 0x20] c) s"

text \<open>\<^verbatim>\<open>pd.to_numeric(series, errors='coerce')\<close>\<close>

fun coerce :: "pandas \<Rightarrow> cell \<Rightarrow> cell" where
  "coerce pd (Str s) = (case to_double pd s of Some x \<Rightarrow> Num x | None \<Rightarrow> NaN)"
| "coerce pd (Num x) = Num x"
| "coerce pd (Bool b) = Num (if b then 1 else 0)"
| "coerce pd c = NaN"

fun datetime_as_int :: "cell \<Rightarrow> cell" where
  "datetime_as_int (Time t) = Num (real_of_int t)"
| "datetime_as_int c = Num (- (2 ^ 63))"

definition to_numeric :: "pandas \<Rightarrow> series \<Rightarrow> series" where
  "to_numeric pd col =
     (case dtype col of
        Object \<Rightarrow> \<lparr>dtype = Numeric, cells = map (coerce pd) (cells col)\<rparr>
      | Numeric \<Rightarrow> col
      | Boolean \<Rightarrow> col
      | Datetime \<Rightarrow> \<lparr>dtype = Numeric, cells = map datetime_as_int (cells col)\<rparr>)"

fun isnull :: "cell \<Rightarrow> bool" where
  "isnull NaN = True"
| "isnull NaT = True"
| "isnull c = False"

definition is_numeric_dtype :: "dtype \<Rightarrow> bool" where
  "is_numeric_dtype t \<longleftrightarrow> t = Numeric \<or> t = Boolean"

definition fillna :: "cell \<Rightarrow> series \<Rightarrow> series" where
  "fillna v col = col\<lparr>cells := map (\<lambda>c. if isnull c then v else c) (cells col)\<rparr>"

text \<open>\<^verbatim>\<open>pd.to_datetime(series, errors='coerce')\<close>\<close>

definition to_datetime :: "pandas \<Rightarrow> series \<Rightarrow> series" where
  "to_datetime pd col =
     \<lparr>dtype = Datetime,
      cells = map (\<lambda>c. case to_timestamp pd c of Some t \<Rightarrow> Time t | None \<Rightarrow> NaT) (cells col)\<rparr>"

text \<open>\<^verbatim>\<open>pd.Timestamp('1900-01-01')\<close>, in nanoseconds from the epoch.\<close>

definition TIMESTAMP_1900 :: cell where
  "TIMESTAMP_1900 = Time (- 2208988800000000000)"

text \<open>
  Lines 41--71, for one column. With \<^verbatim>\<open>errors='coerce'\<close> neither conversion raises, so
  the two \<^verbatim>\<open>except\<close> branches are not entered.
\<close>

definition convert_column :: "pandas \<Rightarrow> series \<Rightarrow> series" where
  "convert_column pd col =
     (let col1 =
            (if dtype col = Object
             then to_numeric pd
                    \<lparr>dtype = Object, cells = map (Str \<circ> clean \<circ> astype_str pd) (cells col)\<rparr>
             else to_numeric pd col);
          col2 =
            (if list_ex isnull (cells col1) \<and> is_numeric_dtype (dtype col1)
             then fillna (Num 0) col1 else col1)
      in if dtype col2 = Object then to_datetime pd col2 else col2)"

text \<open>\<^verbatim>\<open>if name in df.columns: df[name] = f(df[name])\<close>\<close>

definition modify_column :: "str \<Rightarrow> (series \<Rightarrow> series) \<Rightarrow> dataframe \<Rightarrow> dataframe" where
  "modify_column name f df = map (\<lambda>(n, col). if n = name then (n, f col) else (n, col)) df"

text \<open>Line 106: the mapping of the eligibility strings.\<close>

definition ELIGIBILITY_MAP :: "(str \<times> real) list" where
  "ELIGIBILITY_MAP =
     [(lit ''true'', 1), (lit ''false'', 0), (lit ''yes'', 1), (lit ''no'', 0),
      (lit ''eligible'', 1), (lit ''not eligible'', 0)]"

definition map_eligibility :: "pandas \<Rightarrow> series \<Rightarrow> series" where
  "map_eligibility pd col =
     (if dtype col = Object then
        fillna (Num 0)
          \<lparr>dtype = Numeric,
           cells = map (\<lambda>c. case map_of ELIGIBILITY_MAP (lower (astype_str pd c)) of
                               Some v \<Rightarrow> Num v | None \<Rightarrow> NaN) (cells col)\<rparr>
      else col)"

text \<open>Lines 75--107: the rules of each table. A rule for a column that is absent does nothing.\<close>

definition table_rules :: "pandas \<Rightarrow> str \<Rightarrow> dataframe \<Rightarrow> dataframe" where
  "table_rules pd table_name df =
     (if table_name = lit ''total_sales'' then
        modify_column (lit ''date'')
          (\<lambda>col. if dtype col = Datetime then fillna TIMESTAMP_1900 col else col)
          (modify_column (lit ''item_id'') (series_astype_str pd) df)
      else if table_name = lit ''ad_sales'' then
        modify_column (lit ''ad_sales'') (fillna (Num 0))
          (modify_column (lit ''ad_spend'') (fillna (Num 0))
            (modify_column (lit ''item_id'') (series_astype_str pd) df))
      else if table_name = lit ''eligibility'' then
        modify_column (lit ''eligibility'') (map_eligibility pd)
          (modify_column (lit ''eligibility_datetime_utc'')
             (\<lambda>col. fillna TIMESTAMP_1900 (to_datetime pd col))
            (modify_column (lit ''item_id'') (series_astype_str pd) df))
      else df)"

text \<open>Line 110: \<^verbatim>\<open>drop_duplicates\<close> keeps the first of equal rows.\<close>

fun first_occurrence :: "'a list \<Rightarrow> 'a list \<Rightarrow> bool list" where
  "first_occurrence seen [] = []"
| "first_occurrence seen (r # rs) = (\<not> List.member seen r) # first_occurrence (r # seen) rs"

definition drop_duplicates :: "dataframe \<Rightarrow> dataframe" where
  "drop_duplicates df =
     (let rows = transpose (map (\<lambda>(n, col). cells col) df);
          keep = first_occurrence [] rows
      in map (\<lambda>(n, col). (n, col\<lparr>cells := map fst (filter snd (zip (cells col) keep))\<rparr>)) df)"

text \<open>Lines 31--115.\<close>

definition preprocess_df :: "pandas \<Rightarrow> dataframe \<Rightarrow> str \<Rightarrow> dataframe" where
  "preprocess_df pd df table_name =
     (let df1 = map (\<lambda>(n, col). (lower (replace_space (strip n)), col)) df;
          df2 = map (\<lambda>(n, col). (n, convert_column pd col)) df1
      in drop_duplicates (table_rules pd table_name df2))"

section \<open>Concrete inputs\<close>

text \<open>
  Small worlds and states on which the definitions are evaluated: an encoder that maps
  a text to the one-component vector of its length, a kernel that returns the sum of the
  squared differences (on vectors of small whole numbers float32 arithmetic is exact), a
  generative model that answers every prompt with one statement, and a database without
  rows.
\<close>

definition example_world :: world where
  "example_world =
     \<lparr>SentenceTransformer = Inr Encoder,
      encode = (\<lambda>texts. Inr (map (\<lambda>t. [real (length t)]) texts)),
      fvec_L2sqr = (\<lambda>x y. Some (sum_list (map (\<lambda>(a, b). (a - b)\<^sup>2) (zip x y)))),
      generate_content = (\<lambda>prompt. Inr (lit ''SELECT * FROM users;'')),
      execute = (\<lambda>sql. Inr [])\<rparr>"

text \<open>The generative model raises; the database rejects what is not SQL.\<close>

definition failing_world :: world where
  "failing_world =
     example_world
       \<lparr>generate_content := (\<lambda>prompt. Inl (Exception (lit ''quota exceeded''))),
        execute := (\<lambda>sql. Inl (Exception (lit ''syntax error'')))\<rparr>"

definition index3 :: IndexFlatL2 where
  "index3 = \<lparr>index_d = 1, index_xb = [ [0], [6], [3] ]\<rparr>"

definition index2 :: IndexFlatL2 where
  "index2 = \<lparr>index_d = 1, index_xb = [ [2], [1] ]\<rparr>"

definition texts3 :: "str list" where
  "texts3 = [lit ''A'', lit ''B'', lit ''C'']"

text \<open>A process after start-up, with three documents.\<close>

definition ready_state :: state where
  "ready_state =
     \<lparr>embedding_model = Some Encoder, faiss_index = Some index3, context_texts = texts3,
      FAISS_INDEX_PATH = Stored index3, CONTEXT_DATA_PATH = Stored texts3, trace = []\<rparr>"

text \<open>
  An encoder with two components, and processes after start-up whose index holds four
  and two vectors of that dimension.
\<close>

definition planar_world :: world where
  "planar_world =
     example_world\<lparr>encode := (\<lambda>texts. Inr (map (\<lambda>t. [real (length t), 1]) texts))\<rparr>"



definition short_index :: IndexFlatL2 where
  "short_index = \<lparr>index_d = 2, index_xb = [ [2, 3], [2, 2] ]\<rparr>"

definition short_state :: state where
  "short_state =
     \<lparr>embedding_model = Some Encoder, faiss_index = Some short_index,
      context_texts = [lit ''A'', lit ''B''],
      FAISS_INDEX_PATH = Stored short_index,
      CONTEXT_DATA_PATH = Stored [lit ''A'', lit ''B''], trace = []\<rparr>"

text \<open>A process at start-up; the artifacts hold two vectors and three texts.\<close>

definition mismatched_state :: state where
  "mismatched_state =
     \<lparr>embedding_model = None, faiss_index = None, context_texts = [],
      FAISS_INDEX_PATH = Stored index2, CONTEXT_DATA_PATH = Stored texts3, trace = []\<rparr>"

text \<open>A process at start-up; the index artifact is unreadable.\<close>

definition corrupt_state :: state where
  "corrupt_state =
     \<lparr>embedding_model = None, faiss_index = None, context_texts = [],
      FAISS_INDEX_PATH = Corrupt, CONTEXT_DATA_PATH = Stored texts3, trace = []\<rparr>"

text \<open>A library that parses decimal digits only, and a frame of the eligibility table.\<close>

definition example_pandas :: pandas where
  "example_pandas =
     \<lparr>to_double = (\<lambda>s. if s \<noteq> [] \<and> list_all (\<lambda>c. 0x30 \<le> c \<and> c \<le> 0x39) s
                       then Some (real (foldl (\<lambda>n c. 10 * n + (c - 0x30)) 0 s)) else None),
      number_str = (\<lambda>x. lit ''0''),
      time_str = (\<lambda>t. lit ''1970-01-01''),
      to_timestamp = (\<lambda>c. None)\<rparr>"

definition eligibility_frame :: dataframe where
  "eligibility_frame =
     [(lit ''Rank'', \<lparr>dtype = Numeric, cells = [Num 1, Num 2, Num 3]\<rparr>),
      (lit ''Eligibility'', \<lparr>dtype = Object, cells = [Str (lit ''yes''), Str (lit ''no''), Str (lit ''TRUE'')]\<rparr>)]"

section \<open>The SQL extractor\<close>

lemma extract_sql_fenced:
  "extract_sql (lit ''```sql'' @ [10] @ lit ''SELECT 1;'' @ [10] @ lit ''```'') = lit ''SELECT 1;''"
  by (simp add: extract_sql_def strip_def strip_chars_def strip_where_def lit_def isspace_def)

text \<open>
  C3. The extractor is to remove only white space and the code-fence markers around the
  statement. \<^verbatim>\<open>strip("```sql")\<close> removes every leading and trailing character among
  the backquote, \<open>s\<close>, \<open>q\<close> and \<open>l\<close>: an unfenced statement that ends with the table name
  \<^verbatim>\<open>eligibility_status\<close> loses its last letter.
\<close>

theorem extract_sql_cuts_statement:
  "extract_sql (lit ''SELECT * FROM eligibility_status'') = lit ''SELECT * FROM eligibility_statu''"
  by (simp add: extract_sql_def strip_def strip_chars_def strip_where_def lit_def isspace_def)

section \<open>The prompt\<close>

lemma format_text_plain:
  "list_all (\<lambda>c. c \<noteq> 0x7B \<and> c \<noteq> 0x7D) xs \<Longrightarrow>
   format_text name v (xs @ ys) = map_sum id ((@) xs) (format_text name v ys)"
proof (induction xs)
  case Nil
  show ?case by (cases "format_text name v ys") simp_all
next
  case (Cons c xs)
  then show ?case by (cases "format_text name v ys") simp_all
qed

lemma format_field_name:
  "list_all (\<lambda>c. c \<noteq> 0x7D) xs \<Longrightarrow>
   format_field name v acc (xs @ 0x7D # ys) =
     (if rev acc @ xs = name then map_sum id ((@) v) (format_text name v ys)
      else Inl (KeyError (rev acc @ xs)))"
  by (induction xs arbitrary: acc) simp_all

lemma head_plain: "list_all (\<lambda>c. c \<noteq> 0x7B \<and> c \<noteq> 0x7D) TEMPLATE_HEAD"
  by (simp add: TEMPLATE_HEAD_def lit_def)

lemma tail_plain: "list_all (\<lambda>c. c \<noteq> 0x7B \<and> c \<noteq> 0x7D) TEMPLATE_TAIL"
  by (simp add: TEMPLATE_TAIL_def lit_def)

lemma name_plain: "list_all (\<lambda>c. c \<noteq> 0x7D) PLACEHOLDER_NAME"
  by (simp add: PLACEHOLDER_NAME_def lit_def)

lemma name_first: "\<exists>n ns. PLACEHOLDER_NAME = n # ns \<and> n \<noteq> 0x7B"
  by (simp add: PLACEHOLDER_NAME_def lit_def)

text \<open>The template has one replacement field and no other brace, so formatting it never
  raises and puts the value between the two parts.\<close>

lemma format_template_eq:
  "format_template ctx = Inr (TEMPLATE_HEAD @ ctx @ TEMPLATE_TAIL)"
proof -
  obtain n ns where n: "PLACEHOLDER_NAME = n # ns" "n \<noteq> 0x7B"
    using name_first by blast
  have tail: "format_text PLACEHOLDER_NAME ctx TEMPLATE_TAIL = Inr TEMPLATE_TAIL"
    using format_text_plain [OF tail_plain, of PLACEHOLDER_NAME ctx "[]"] by simp
  have field: "format_field PLACEHOLDER_NAME ctx [] (PLACEHOLDER_NAME @ 0x7D # TEMPLATE_TAIL)
      = Inr (ctx @ TEMPLATE_TAIL)"
    using format_field_name [OF name_plain, of PLACEHOLDER_NAME ctx "[]" TEMPLATE_TAIL] tail
    by simp
  have "format_text PLACEHOLDER_NAME ctx (0x7B # (n # ns) @ 0x7D # TEMPLATE_TAIL)
      = format_field PLACEHOLDER_NAME ctx [] ((n # ns) @ 0x7D # TEMPLATE_TAIL)"
    using n(2) by simp
  then have "format_text PLACEHOLDER_NAME ctx (0x7B # PLACEHOLDER_NAME @ 0x7D # TEMPLATE_TAIL)
      = Inr (ctx @ TEMPLATE_TAIL)"
    using field by (simp only: n(1) [symmetric])
  then show ?thesis
    unfolding format_template_def SYSTEM_PROMPT_TEMPLATE_def
    using format_text_plain [OF head_plain, of PLACEHOLDER_NAME ctx
        "[0x7B] @ PLACEHOLDER_NAME @ [0x7D] @ TEMPLATE_TAIL"]
    by simp
qed

lemma assemble_prompt_eq:
  "assemble_prompt ctx question =
     Inr (TEMPLATE_HEAD @ ctx @ TEMPLATE_TAIL @ QUESTION_LABEL @ question @ SQL_LABEL)"
  by (simp add: assemble_prompt_def format_template_eq)

lemma add_bullets_docs:
  "map (getitem texts) idxs = map Inr docs \<Longrightarrow>
   add_bullets texts acc idxs = Inr (acc @ concat (map bullet docs))"
proof (induction idxs arbitrary: acc docs)
  case Nil
  then show ?case by simp
next
  case (Cons i idxs)
  then obtain d ds where "docs = d # ds" by (cases docs) auto
  with Cons show ?case by simp
qed

section \<open>The similarity search\<close>

lemma scored_entry:
  assumes "(dis, i) \<in> set (scored L2sqr ix q)"
  shows "0 \<le> i \<and> i < int (ntotal ix) \<and> L2sqr q (index_xb ix ! nat i) = Some dis \<and> dis < FLT_MAX"
proof -
  from assms obtain j v where jv: "(j, v) \<in> set (enumerate 0 (index_xb ix))"
    and c: "(dis, i) \<in> set (case L2sqr q v of None \<Rightarrow> []
              | Some e \<Rightarrow> if e < FLT_MAX then [(e, int j)] else [])"
    by (auto simp: scored_def)
  from c have e: "L2sqr q v = Some dis" "dis < FLT_MAX" "i = int j"
    by (auto split: option.splits if_splits)
  from jv have "j < length (index_xb ix)" "index_xb ix ! j = v"
    by (auto simp: in_set_enumerate_eq)
  with e show ?thesis by (simp add: ntotal_def)
qed

lemma labels_entering:
  assumes "\<forall>(j, v) \<in> set es. \<exists>dis. L2sqr q v = Some dis \<and> dis < FLT_MAX"
  shows "map snd (concat (map (\<lambda>(i, v). case L2sqr q v of None \<Rightarrow> []
            | Some dis \<Rightarrow> if dis < FLT_MAX then [(dis, int i)] else []) es)) = map (int \<circ> fst) es"
  using assms by (induction es) auto

lemma labels_scored:
  assumes "\<forall>v \<in> set (index_xb ix). \<exists>dis. L2sqr q v = Some dis \<and> dis < FLT_MAX"
  shows "map snd (scored L2sqr ix q) = map int [0..<ntotal ix]"
proof -
  have "\<forall>(j, v) \<in> set (enumerate 0 (index_xb ix)). \<exists>dis. L2sqr q v = Some dis \<and> dis < FLT_MAX"
    using assms by (auto simp: in_set_enumerate_eq)
  then have "map snd (scored L2sqr ix q) = map (int \<circ> fst) (enumerate 0 (index_xb ix))"
    unfolding scored_def by (rule labels_entering)
  also have "\<dots> = map int (map fst (enumerate 0 (index_xb ix)))"
    by (simp only: map_map)
  also have "\<dots> = map int [0..<ntotal ix]"
    by (simp only: map_fst_enumerate ntotal_def add_0)
  finally show ?thesis .
qed

lemma length_ranked:
  assumes "\<forall>v \<in> set (index_xb ix). \<exists>dis. L2sqr q v = Some dis \<and> dis < FLT_MAX"
  shows "length (ranked L2sqr ix q) = ntotal ix"
proof -
  have "length (map snd (scored L2sqr ix q)) = length (map int [0..<ntotal ix])"
    by (simp only: labels_scored [where L2sqr = "L2sqr" and q = q and ix = ix, OF assms])
  then show ?thesis by (simp add: ranked_def)
qed

lemma mset_labels_ranked:
  assumes "\<forall>v \<in> set (index_xb ix). \<exists>dis. L2sqr q v = Some dis \<and> dis < FLT_MAX"
  shows "mset (map snd (ranked L2sqr ix q)) = mset (map int [0..<ntotal ix])"
proof -
  have "mset (map snd (ranked L2sqr ix q)) = image_mset snd (mset (scored L2sqr ix q))"
    by (simp add: ranked_def)
  also have "\<dots> = mset (map snd (scored L2sqr ix q))" by simp
  finally show ?thesis by (simp only: labels_scored [where L2sqr = "L2sqr" and q = q and ix = ix, OF assms])
qed

lemma distinct_labels_ranked:
  assumes "\<forall>v \<in> set (index_xb ix). \<exists>dis. L2sqr q v = Some dis \<and> dis < FLT_MAX"
  shows "distinct (map snd (ranked L2sqr ix q))"
proof -
  have "distinct (map int [0..<ntotal ix])" by (simp add: distinct_map)
  moreover note m = mset_labels_ranked [where L2sqr = L2sqr and q = q and ix = ix, OF assms]
  ultimately show ?thesis using mset_eq_imp_distinct_iff [OF m] by blast
qed

lemma set_labels_ranked:
  assumes "\<forall>v \<in> set (index_xb ix). \<exists>dis. L2sqr q v = Some dis \<and> dis < FLT_MAX"
  shows "set (map snd (ranked L2sqr ix q)) = int ` {0..<ntotal ix}"
proof -
  have "set (map snd (ranked L2sqr ix q)) = set (map int [0..<ntotal ix])"
    using mset_labels_ranked [where L2sqr = "L2sqr" and q = q and ix = ix, OF assms] by (metis set_mset_mset)
  then show ?thesis by simp
qed

lemma sorted_ranked: "sorted (map fst (ranked L2sqr ix q))"
  by (simp add: ranked_def)

lemma ranked_entry:
  assumes "(dis, i) \<in> set (ranked L2sqr ix q)"
  shows "0 \<le> i \<and> i < int (ntotal ix) \<and> L2sqr q (index_xb ix ! nat i) = Some dis \<and> dis < FLT_MAX"
  using assms scored_entry [of dis i L2sqr ix q] by (simp add: ranked_def)

lemma knn_ranked:
  "knn L2sqr ix q k =
     take k (ranked L2sqr ix q)
     @ replicate (k - length (take k (ranked L2sqr ix q))) (FLT_MAX, - 1)"
  by (simp add: knn_def Let_def)

lemma length_knn: "length (knn L2sqr ix q k) = k"
  by (simp add: knn_ranked)

text \<open>Whatever enters the result is below the largest float, so the padding comes last.\<close>

lemma sorted_knn: "sorted (map fst (knn L2sqr ix q k))"
proof -
  let ?best = "take k (ranked L2sqr ix q)"
  have "sorted (map fst ?best)"
    using sorted_ranked [of L2sqr ix q] by (simp add: take_map [symmetric] sorted_wrt_take)
  moreover have "\<forall>x \<in> set (map fst ?best). x \<le> FLT_MAX"
    using ranked_entry [of _ _ L2sqr ix q] by (fastforce dest: in_set_takeD)
  ultimately show ?thesis
    by (simp add: knn_ranked sorted_append)
qed


lemma knn_short:
  assumes "ntotal ix < k"
    and "\<forall>v \<in> set (index_xb ix). \<exists>dis. L2sqr q v = Some dis \<and> dis < FLT_MAX"
  shows "knn L2sqr ix q k = ranked L2sqr ix q @ replicate (k - ntotal ix) (FLT_MAX, - 1)"
  using assms(1) by (simp add: knn_ranked length_ranked [where L2sqr = "L2sqr" and q = q and ix = ix, OF assms(2)])


lemma index_search_one:
  "length q = index_d ix \<Longrightarrow> index_search L2sqr ix [q] k = Inr [knn L2sqr ix q k]"
  by (simp add: index_search_def)

lemma similarity_search_ready:
  assumes "embedding_model s = Some m" and "faiss_index s = Some ix"
    and "encode w [question] = Inr x"
  shows "similarity_search w question s =
           (index_search (fvec_L2sqr w) ix x 3, s\<lparr>trace := trace s @ [Search x 3]\<rparr>)"
  using assms by (simp add: similarity_search_def)




text \<open>
  C1 as stated fails. An index of two vectors searched with \<open>k = 3\<close> returns three
  entries, the third being the padding label \<open>-1\<close>; the bullet loop resolves \<open>-1\<close> to the
  last document, which then appears twice. And a query of another dimension than the
  index's makes the search raise.
\<close>

theorem search_pads_counterexample:
  "ntotal index2 = 2 \<and>
   index_search (fvec_L2sqr example_world) index2 [ [0] ] 3 =
     Inr [ [(1, 1), (4, 0), (FLT_MAX, - 1)] ] \<and>
   retrieved_context [lit ''A'', lit ''B''] [1, 0, - 1] =
     Inr ([10, 10] @ lit ''Relevant Context for your question:'' @ [10]
          @ lit ''- B'' @ [10] @ lit ''- A'' @ [10] @ lit ''- B'' @ [10]) \<and>
   fst (retrieve planar_world (lit ''hi'') short_state) =
     Inr ([10, 10] @ lit ''Relevant Context for your question:'' @ [10]
          @ lit ''- B'' @ [10] @ lit ''- A'' @ [10] @ lit ''- B'' @ [10]) \<and>
   index_search (fvec_L2sqr example_world) index2 [ [0, 0] ] 3 = Inl AssertionError"
proof -
  have a: "index_search (fvec_L2sqr example_world) index2 [ [0] ] 3 =
     Inr [ [(1, 1), (4, 0), (FLT_MAX, - 1)] ]"
    by (simp add: index_search_def knn_def ranked_def scored_def index2_def example_world_def
        enumerate_eq_zip FLT_MAX_def)
  have b: "retrieved_context [lit ''A'', lit ''B''] [1, 0, - 1] =
     Inr ([10, 10] @ lit ''Relevant Context for your question:'' @ [10]
          @ lit ''- B'' @ [10] @ lit ''- A'' @ [10] @ lit ''- B'' @ [10])"
    by (simp add: retrieved_context_def getitem_def CONTEXT_HEADER_def bullet_def lit_def)
  have s: "index_search (fvec_L2sqr planar_world) short_index [ [2, 1] ] 3 =
     Inr [ [(1, 1), (4, 0), (FLT_MAX, - 1)] ]"
    by (simp add: index_search_def knn_def ranked_def scored_def short_index_def planar_world_def
        example_world_def enumerate_eq_zip FLT_MAX_def)
  have e: "encode planar_world [lit ''hi''] = Inr [ [2, 1] ]"
    by (simp add: planar_world_def example_world_def lit_def)
  have c: "fst (retrieve planar_world (lit ''hi'') short_state) =
     Inr ([10, 10] @ lit ''Relevant Context for your question:'' @ [10]
          @ lit ''- B'' @ [10] @ lit ''- A'' @ [10] @ lit ''- B'' @ [10])"
    by (simp add: retrieve_def similarity_search_def short_state_def e s getitem_def b)
  have d: "index_search (fvec_L2sqr example_world) index2 [ [0, 0] ] 3 = Inl AssertionError"
    by (simp add: index_search_def index2_def)
  have n: "ntotal index2 = 2" by (simp add: ntotal_def index2_def)
  from n a b c d show ?thesis by blast
qed

text \<open>
  C1, amended. Let \<open>k\<close> exceed the number \<open>n\<close> of stored vectors, and let the kernel
  compute for each of them a finite float below the largest. For a query of the index's
  dimension the search raises nothing and returns exactly \<open>k\<close> entries in non-decreasing
  distance: the first \<open>n\<close> carry the labels of all stored vectors, each once, with the
  distance the kernel computes for that vector, and the other \<open>k - n\<close> are padding entries
  with the label \<open>-1\<close>; with \<open>k = 3\<close> this is the result of the search step of lines
  177--179 in an initialised process. For a query of another dimension the search raises
  AssertionError.
\<close>

theorem search_pads_beyond_corpus:
  assumes "ntotal ix < k"
    and "\<forall>v \<in> set (index_xb ix). \<exists>dis. fvec_L2sqr w q v = Some dis \<and> dis < FLT_MAX"
  shows "(length q = index_d ix \<longrightarrow>
           (\<exists>r. index_search (fvec_L2sqr w) ix [q] k = Inr [r] \<and>
              length r = k \<and>
              sorted (map fst r) \<and>
              distinct (map snd (take (ntotal ix) r)) \<and>
              set (map snd (take (ntotal ix) r)) = int ` {0..<ntotal ix} \<and>
              (\<forall>(dis, i) \<in> set (take (ntotal ix) r).
                 fvec_L2sqr w q (index_xb ix ! nat i) = Some dis) \<and>
              drop (ntotal ix) r = replicate (k - ntotal ix) (FLT_MAX, - 1) \<and>
              (k = 3 \<and> embedding_model s = Some m \<and> faiss_index s = Some ix \<and>
               encode w [question] = Inr [q] \<longrightarrow>
                 similarity_search w question s =
                   (Inr [r], s\<lparr>trace := trace s @ [Search [q] 3]\<rparr>)))) \<and>
         (length q \<noteq> index_d ix \<longrightarrow>
            index_search (fvec_L2sqr w) ix [q] k = Inl AssertionError)"
proof -
  let ?L = "fvec_L2sqr w"
  let ?r = "knn ?L ix q k"
  have k: "?r = ranked ?L ix q @ replicate (k - ntotal ix) (FLT_MAX, - 1)"
    using assms by (rule knn_short [where L2sqr = "fvec_L2sqr w" and q = q and ix = ix])
  have t: "take (ntotal ix) ?r = ranked ?L ix q"
    by (simp add: k length_ranked [where L2sqr = "fvec_L2sqr w" and q = q and ix = ix, OF assms(2)])
  have len: "length ?r = k" by (rule length_knn)
  have srt: "sorted (map fst ?r)" by (rule sorted_knn)
  have dst: "distinct (map snd (take (ntotal ix) ?r))"
    using distinct_labels_ranked [where L2sqr = "fvec_L2sqr w" and q = q and ix = ix, OF assms(2)] by (simp only: t)
  have lab: "set (map snd (take (ntotal ix) ?r)) = int ` {0..<ntotal ix}"
    using set_labels_ranked [where L2sqr = "fvec_L2sqr w" and q = q and ix = ix, OF assms(2)] by (simp only: t)
  have ent: "\<forall>(dis, i) \<in> set (take (ntotal ix) ?r). ?L q (index_xb ix ! nat i) = Some dis"
    using ranked_entry [of _ _ ?L ix q] by (auto simp: t)
  have pad: "drop (ntotal ix) ?r = replicate (k - ntotal ix) (FLT_MAX, - 1)"
    by (simp add: k length_ranked [where L2sqr = "fvec_L2sqr w" and q = q and ix = ix, OF assms(2)])
  have src: "length q = index_d ix \<longrightarrow>
      (k = 3 \<and> embedding_model s = Some m \<and> faiss_index s = Some ix \<and>
       encode w [question] = Inr [q] \<longrightarrow>
       similarity_search w question s = (Inr [?r], s\<lparr>trace := trace s @ [Search [q] 3]\<rparr>))"
    by (auto simp: similarity_search_ready index_search_one)
  have ok: "length q = index_d ix \<longrightarrow> index_search ?L ix [q] k = Inr [?r]"
    by (simp add: index_search_one)
  have bad: "length q \<noteq> index_d ix \<longrightarrow> index_search ?L ix [q] k = Inl AssertionError"
    by (simp add: index_search_def)
  from len srt dst lab ent pad src ok bad show ?thesis by blast
qed

theorem search_pads_beyond_corpus_witness:
  "ntotal short_index < 3 \<and>
   map (fvec_L2sqr planar_world [2, 1]) (index_xb short_index) = [Some 4, Some 1] \<and>
   length [2::real, 1] = index_d short_index \<and>
   embedding_model short_state = Some Encoder \<and> faiss_index short_state = Some short_index \<and>
   encode planar_world [lit ''hi''] = Inr [ [2, 1] ] \<and>
   similarity_search planar_world (lit ''hi'') short_state =
     (Inr [ [(1, 1), (4, 0), (FLT_MAX, - 1)] ], short_state\<lparr>trace := [Search [ [2, 1] ] 3]\<rparr>) \<and>
   length [7::real] \<noteq> index_d short_index \<and>
   index_search (fvec_L2sqr planar_world) short_index [ [7] ] 3 = Inl AssertionError"
proof -
  have h1: "ntotal short_index < 3" by (simp add: short_index_def ntotal_def)
  have h2: "\<forall>v \<in> set (index_xb short_index).
      \<exists>dis. fvec_L2sqr planar_world [2, 1] v = Some dis \<and> dis < FLT_MAX"
    by (simp add: short_index_def planar_world_def example_world_def FLT_MAX_def)
  have h2': "\<forall>v \<in> set (index_xb short_index).
      \<exists>dis. fvec_L2sqr planar_world [7] v = Some dis \<and> dis < FLT_MAX"
    by (simp add: short_index_def planar_world_def example_world_def FLT_MAX_def)
  have h3: "length [2::real, 1] = index_d short_index" by (simp add: short_index_def)
  have h4: "embedding_model short_state = Some Encoder"
    "faiss_index short_state = Some short_index" "trace short_state = []"
    by (simp_all add: short_state_def)
  have h5: "encode planar_world [lit ''hi''] = Inr [ [2, 1] ]"
    by (simp add: planar_world_def example_world_def lit_def)
  have h6: "length [7::real] \<noteq> index_d short_index" by (simp add: short_index_def)
  have s: "index_search (fvec_L2sqr planar_world) short_index [ [2, 1] ] 3 =
     Inr [ [(1, 1), (4, 0), (FLT_MAX, - 1)] ]"
    by (simp add: index_search_def knn_def ranked_def scored_def short_index_def planar_world_def
        example_world_def enumerate_eq_zip FLT_MAX_def)
  obtain r where r: "index_search (fvec_L2sqr planar_world) short_index [ [2, 1] ] 3 = Inr [r]"
    and src: "3 = (3::nat) \<and> embedding_model short_state = Some Encoder \<and>
        faiss_index short_state = Some short_index \<and>
        encode planar_world [lit ''hi''] = Inr [ [2, 1] ] \<longrightarrow>
        similarity_search planar_world (lit ''hi'') short_state =
          (Inr [r], short_state\<lparr>trace := trace short_state @ [Search [ [2, 1] ] 3]\<rparr>)"
    using search_pads_beyond_corpus [where w = planar_world and q = "[2, 1]" and ix = short_index and k = 3 and s = short_state and m = Encoder and question = "lit ''hi''", OF h1 h2] h3 by blast
  from r have "r = [(1, 1), (4, 0), (FLT_MAX, - 1)]" by (simp add: s)
  with src h4 h5 have a: "similarity_search planar_world (lit ''hi'') short_state =
     (Inr [ [(1, 1), (4, 0), (FLT_MAX, - 1)] ], short_state\<lparr>trace := [Search [ [2, 1] ] 3]\<rparr>)"
    by simp
  have b: "index_search (fvec_L2sqr planar_world) short_index [ [7] ] 3 = Inl AssertionError"
    using search_pads_beyond_corpus [where w = planar_world and q = "[7]" and ix = short_index and k = 3, OF h1 h2'] h6 by blast
  have c: "map (fvec_L2sqr planar_world [2, 1]) (index_xb short_index) = [Some 4, Some 1]"
    by (simp add: short_index_def planar_world_def example_world_def)
  from h1 c h3 h4 h5 h6 a b show ?thesis by blast
qed
section \<open>Loading and rebuilding the index\<close>

lemma load_embedding_model_ok:
  assumes "SentenceTransformer w = Inr Encoder"
  shows "load_embedding_model w s = (None, s\<lparr>embedding_model := Some Encoder\<rparr>)"
proof (cases "embedding_model s")
  case None
  then show ?thesis using assms by (simp add: load_embedding_model_def)
next
  case (Some m)
  then have "embedding_model s = Some Encoder" by (cases m) simp
  then show ?thesis by (simp add: load_embedding_model_def)
qed

text \<open>
  C7 as stated fails: artifacts holding two vectors and three texts are both readable,
  and the pair is adopted as it is.
\<close>

theorem load_keeps_mismatch_counterexample:
  "initialize_rag_components example_world mismatched_state =
     (None, mismatched_state\<lparr>embedding_model := Some Encoder, faiss_index := Some index2,
                              context_texts := texts3\<rparr>) \<and>
   ntotal index2 = 2 \<and> length texts3 = 3"
  by (simp add: initialize_rag_components_def load_embedding_model_def load_from_disk_def
      path_exists_def read_file_def mismatched_state_def example_world_def ntotal_def
      index2_def texts3_def)

text \<open>
  C7, amended. Whenever both artifacts are readable, the loaded index and the loaded
  list of texts become the globals as they are, whatever their sizes; the number of
  texts is not compared with the number of vectors.
\<close>

theorem load_adopts_readable_artifacts:
  assumes "SentenceTransformer w = Inr Encoder" and "faiss_index s = None"
    and "FAISS_INDEX_PATH s = Stored ix" and "CONTEXT_DATA_PATH s = Stored texts"
  shows "initialize_rag_components w s =
           (None, s\<lparr>embedding_model := Some Encoder, faiss_index := Some ix,
                     context_texts := texts\<rparr>)"
  using assms
  by (simp add: initialize_rag_components_def load_embedding_model_ok load_from_disk_def
      path_exists_def read_file_def)

theorem load_adopts_readable_artifacts_witness:
  "SentenceTransformer example_world = Inr Encoder \<and> faiss_index mismatched_state = None \<and>
   FAISS_INDEX_PATH mismatched_state = Stored index2 \<and>
   CONTEXT_DATA_PATH mismatched_state = Stored texts3 \<and>
   initialize_rag_components example_world mismatched_state =
     (None, mismatched_state\<lparr>embedding_model := Some Encoder, faiss_index := Some index2,
                              context_texts := texts3\<rparr>)"
proof -
  have h1: "SentenceTransformer example_world = Inr Encoder" by (simp add: example_world_def)
  have h2: "faiss_index mismatched_state = None" by (simp add: mismatched_state_def)
  have h3: "FAISS_INDEX_PATH mismatched_state = Stored index2" by (simp add: mismatched_state_def)
  have h4: "CONTEXT_DATA_PATH mismatched_state = Stored texts3" by (simp add: mismatched_state_def)
  show ?thesis
    using h1 h2 h3 h4 load_adopts_readable_artifacts [OF h1 h2 h3 h4] by simp
qed

lemma load_from_disk_fails:
  assumes "faiss_index s = None"
    and "FAISS_INDEX_PATH s \<in> {Absent, Corrupt} \<or> CONTEXT_DATA_PATH s \<in> {Absent, Corrupt}"
  shows "faiss_index (load_from_disk s) = None"
    and "FAISS_INDEX_PATH (load_from_disk s) = FAISS_INDEX_PATH s"
    and "CONTEXT_DATA_PATH (load_from_disk s) = CONTEXT_DATA_PATH s"
    and "embedding_model (load_from_disk s) = embedding_model s"
    and "trace (load_from_disk s) = trace s"
  using assms
  by (auto simp: load_from_disk_def path_exists_def read_file_def
      split: artifact.splits sum.splits)

lemma build_index_ok:
  assumes "encode w knowledge_base_documents = Inr (v # vs)"
    and "list_all (\<lambda>u. length u = length v) vs"
  shows "build_index w s =
           (None, s\<lparr>context_texts := knowledge_base_documents,
                     faiss_index := Some \<lparr>index_d = length v, index_xb = v # vs\<rparr>,
                     FAISS_INDEX_PATH := Stored \<lparr>index_d = length v, index_xb = v # vs\<rparr>,
                     CONTEXT_DATA_PATH := Stored knowledge_base_documents\<rparr>)"
  using assms by (simp add: build_index_def index_add_def new_IndexFlatL2_def Let_def)

text \<open>
  C8. When an artifact is missing or unreadable, and the encoder is available and
  returns the embeddings of the knowledge base (a non-empty matrix, every row of one
  dimension), initialisation returns normally with the index built from those embeddings,
  the knowledge base as the texts, and both artifacts written with exactly these two
  values.
\<close>

theorem rebuild_and_persist_on_failed_load:
  assumes "SentenceTransformer w = Inr Encoder" and "faiss_index s = None"
    and "FAISS_INDEX_PATH s \<in> {Absent, Corrupt} \<or> CONTEXT_DATA_PATH s \<in> {Absent, Corrupt}"
    and "encode w knowledge_base_documents = Inr (v # vs)"
    and "list_all (\<lambda>u. length u = length v) vs"
  shows "\<exists>s'. initialize_rag_components w s = (None, s') \<and>
           embedding_model s' = Some Encoder \<and>
           faiss_index s' = Some \<lparr>index_d = length v, index_xb = v # vs\<rparr> \<and>
           context_texts s' = knowledge_base_documents \<and>
           FAISS_INDEX_PATH s' = Stored \<lparr>index_d = length v, index_xb = v # vs\<rparr> \<and>
           CONTEXT_DATA_PATH s' = Stored knowledge_base_documents \<and>
           trace s' = trace s"
proof -
  let ?s1 = "s\<lparr>embedding_model := Some Encoder\<rparr>"
  have f: "faiss_index ?s1 = None" using assms(2) by simp
  have a: "FAISS_INDEX_PATH ?s1 \<in> {Absent, Corrupt} \<or> CONTEXT_DATA_PATH ?s1 \<in> {Absent, Corrupt}"
    using assms(3) by simp
  note l = load_from_disk_fails [OF f a]
  have "initialize_rag_components w s = build_index w (load_from_disk ?s1)"
    using l(1) assms(2)
    by (simp add: initialize_rag_components_def load_embedding_model_ok [OF assms(1)] Let_def)
  then show ?thesis
    using l by (simp add: build_index_ok [OF assms(4,5)])
qed

lemma map_hd_tl: "xs \<noteq> [] \<Longrightarrow> map f xs = f (hd xs) # map f (tl xs)"
  by (cases xs) simp_all

lemma example_encode:
  "encode example_world knowledge_base_documents =
     Inr ([real (length (hd knowledge_base_documents))]
          # map (\<lambda>t. [real (length t)]) (tl knowledge_base_documents))"
proof -
  have "knowledge_base_documents \<noteq> []" by (simp add: knowledge_base_documents_def)
  then show ?thesis by (simp add: example_world_def map_hd_tl)
qed

theorem rebuild_and_persist_on_failed_load_witness:
  "SentenceTransformer example_world = Inr Encoder \<and> faiss_index corrupt_state = None \<and>
   (FAISS_INDEX_PATH corrupt_state \<in> {Absent, Corrupt} \<or>
    CONTEXT_DATA_PATH corrupt_state \<in> {Absent, Corrupt}) \<and>
   (\<exists>s'. initialize_rag_components example_world corrupt_state = (None, s') \<and>
      context_texts s' = knowledge_base_documents \<and>
      CONTEXT_DATA_PATH s' = Stored knowledge_base_documents \<and>
      FAISS_INDEX_PATH s' =
        Stored \<lparr>index_d = 1,
                index_xb = [real (length (hd knowledge_base_documents))]
                  # map (\<lambda>t. [real (length t)]) (tl knowledge_base_documents)\<rparr>)"
proof -
  have h1: "SentenceTransformer example_world = Inr Encoder" by (simp add: example_world_def)
  have h2: "faiss_index corrupt_state = None" by (simp add: corrupt_state_def)
  have h3: "FAISS_INDEX_PATH corrupt_state \<in> {Absent, Corrupt} \<or>
    CONTEXT_DATA_PATH corrupt_state \<in> {Absent, Corrupt}" by (simp add: corrupt_state_def)
  have h5: "list_all (\<lambda>u. length u = length [real (length (hd knowledge_base_documents))])
    (map (\<lambda>t. [real (length t)]) (tl knowledge_base_documents))"
    by (simp add: list_all_iff)
  show ?thesis
    using h1 h2 h3 rebuild_and_persist_on_failed_load [OF h1 h2 h3 example_encode h5]
    by auto
qed


section \<open>The pipeline and the routes\<close>

text \<open>Every exception of the \<^verbatim>\<open>try\<close> body becomes a returned string.\<close>

lemma get_sql_from_question_caught:
  "get_sql_try w question s = (Inl e, s1) \<Longrightarrow>
   get_sql_from_question w question s = (ERROR_GENERATING_SQL @ message e, s1)"
  by (simp add: get_sql_from_question_def)

text \<open>No such string starts with the prefix that the route tests.\<close>

lemma error_string_not_marked: "\<not> startswith (ERROR_GENERATING_SQL @ m) ERROR_MARKER"
  by (simp add: startswith_def ERROR_GENERATING_SQL_def ERROR_MARKER_def lit_def)

lemma ready_initialised:
  "embedding_model ready_state = Some Encoder" "faiss_index ready_state = Some index3"
  by (simp_all add: ready_state_def)

lemma same_kernel: "fvec_L2sqr failing_world = fvec_L2sqr example_world"
  by (simp add: failing_world_def)

lemma search_ready:
  assumes "encode w [question] = Inr [ [real n] ]"
    and "fvec_L2sqr w = fvec_L2sqr example_world"
  shows "similarity_search w question ready_state =
           (Inr [knn (fvec_L2sqr example_world) index3 [real n] 3],
            ready_state\<lparr>trace := [Search [ [real n] ] 3]\<rparr>)"
proof -
  have "index_search (fvec_L2sqr example_world) index3 [ [real n] ] 3 =
      Inr [knn (fvec_L2sqr example_world) index3 [real n] 3]"
    by (simp add: index_search_def index3_def)
  then show ?thesis
    using assms by (simp add: similarity_search_def ready_state_def)
qed

lemma retrieve_ready:
  assumes "encode w [question] = Inr [ [real n] ]"
    and "fvec_L2sqr w = fvec_L2sqr example_world"
  shows "retrieve w question ready_state =
           (retrieved_context texts3 (map snd (knn (fvec_L2sqr example_world) index3 [real n] 3)),
            ready_state\<lparr>trace := [Search [ [real n] ] 3]\<rparr>)"
proof -
  have c: "context_texts (ready_state\<lparr>trace := t\<rparr>) = texts3" for t
    by (simp add: ready_state_def)
  show ?thesis
    unfolding retrieve_def search_ready [OF assms] by (simp add: getitem_def c)
qed

lemma knn_index3_2: "map snd (knn (fvec_L2sqr example_world) index3 [2] 3) = [2, 0, 1]"
  by (simp add: knn_def ranked_def scored_def index3_def example_world_def enumerate_eq_zip
      FLT_MAX_def)

lemma knn_index3_1: "map snd (knn (fvec_L2sqr example_world) index3 [1] 3) = [0, 2, 1]"
  by (simp add: knn_def ranked_def scored_def index3_def example_world_def enumerate_eq_zip
      FLT_MAX_def)

lemma knn_index3_10: "knn (fvec_L2sqr example_world) index3 [10] 3 = [(16, 1), (49, 2), (100, 0)]"
  by (simp add: knn_def ranked_def scored_def index3_def example_world_def enumerate_eq_zip
      FLT_MAX_def)

lemma context_201:
  "retrieved_context texts3 [2, 0, 1] =
     Inr (CONTEXT_HEADER @ bullet (lit ''C'') @ bullet (lit ''A'') @ bullet (lit ''B''))"
  by (simp add: retrieved_context_def getitem_def texts3_def)

lemma context_021:
  "retrieved_context texts3 [0, 2, 1] =
     Inr (CONTEXT_HEADER @ bullet (lit ''A'') @ bullet (lit ''C'') @ bullet (lit ''B''))"
  by (simp add: retrieved_context_def getitem_def texts3_def)

lemma context_120:
  "retrieved_context texts3 [1, 2, 0] =
     Inr (CONTEXT_HEADER @ bullet (lit ''B'') @ bullet (lit ''C'') @ bullet (lit ''A''))"
  by (simp add: retrieved_context_def getitem_def texts3_def)

lemma retrieve_hi:
  "retrieve failing_world (lit ''hi'') ready_state =
     (Inr (CONTEXT_HEADER @ bullet (lit ''C'') @ bullet (lit ''A'') @ bullet (lit ''B'')),
      ready_state\<lparr>trace := [Search [ [2] ] 3]\<rparr>)"
proof -
  have e: "encode failing_world [lit ''hi''] = Inr [ [real 2] ]"
    by (simp add: failing_world_def example_world_def lit_def)
  show ?thesis
    using retrieve_ready [OF e same_kernel] by (simp add: knn_index3_2 context_201)
qed

lemma get_sql_hi:
  "get_sql_from_question failing_world (lit ''hi'') ready_state =
     (ERROR_GENERATING_SQL @ lit ''quota exceeded'',
      ready_state\<lparr>trace :=
        [Search [ [2] ] 3,
         Generate (TEMPLATE_HEAD
           @ (CONTEXT_HEADER @ bullet (lit ''C'') @ bullet (lit ''A'') @ bullet (lit ''B''))
           @ TEMPLATE_TAIL @ QUESTION_LABEL @ lit ''hi'' @ SQL_LABEL)]\<rparr>)"
proof -
  have g: "generate_content failing_world p = Inl (Exception (lit ''quota exceeded''))" for p
    by (simp add: failing_world_def)
  show ?thesis
    by (simp add: ready_initialised get_sql_from_question_def get_sql_try_def retrieve_hi
        assemble_prompt_eq g)
qed

text \<open>
  C2. The pipeline is to return a string that starts with the error marker, and the
  route is to recognise that prefix. The string returned starts with the code points
  U+201A, U+00F9, U+00E5, the route tests for U+274C: when the generative model raises, the
  route does not take its error branch and hands the error text to the database.
\<close>

theorem pipeline_error_not_recognised:
  "fst (get_sql_from_question failing_world (lit ''hi'') ready_state) =
     ERROR_GENERATING_SQL @ lit ''quota exceeded'' \<and>
   \<not> startswith (fst (get_sql_from_question failing_world (lit ''hi'') ready_state)) ERROR_MARKER \<and>
   fst (ask failing_world (Some (lit ''hi'')) ready_state) = (ErrorBody (lit ''syntax error''), 500) \<and>
   last (trace (snd (ask failing_world (Some (lit ''hi'')) ready_state))) =
     Execute (ERROR_GENERATING_SQL @ lit ''quota exceeded'')"
proof -
  have q: "lit ''hi'' \<noteq> []" by (simp add: lit_def)
  have x: "execute failing_world sql = Inl (Exception (lit ''syntax error''))" for sql
    by (simp add: failing_world_def)
  show ?thesis
    using q by (simp add: ask_def get_sql_hi error_string_not_marked x)
qed

lemma get_sql_list_users:
  "get_sql_from_question example_world (lit ''list users'') ready_state =
     (lit ''SELECT * FROM users;'',
      ready_state\<lparr>trace :=
        [Search [ [10] ] 3,
         Generate (TEMPLATE_HEAD
           @ (CONTEXT_HEADER @ bullet (lit ''B'') @ bullet (lit ''C'') @ bullet (lit ''A''))
           @ TEMPLATE_TAIL @ QUESTION_LABEL @ lit ''list users'' @ SQL_LABEL)]\<rparr>)"
proof -
  have e: "encode example_world [lit ''list users''] = Inr [ [real 10] ]"
    by (simp add: example_world_def lit_def)
  have g: "generate_content example_world p = Inr (lit ''SELECT * FROM users;'')" for p
    by (simp add: example_world_def)
  have x: "extract_sql (lit ''SELECT * FROM users;'') = lit ''SELECT * FROM users;''"
    by (simp add: extract_sql_def strip_def strip_chars_def strip_where_def lit_def isspace_def)
  have r: "retrieve example_world (lit ''list users'') ready_state =
     (Inr (CONTEXT_HEADER @ bullet (lit ''B'') @ bullet (lit ''C'') @ bullet (lit ''A'')),
      ready_state\<lparr>trace := [Search [ [10] ] 3]\<rparr>)"
    using retrieve_ready [OF e refl] by (simp add: knn_index3_10 context_120)
  show ?thesis
    by (simp add: ready_initialised get_sql_from_question_def get_sql_try_def r assemble_prompt_eq g x)
qed

lemma users_not_marked: "\<not> startswith (lit ''SELECT * FROM users;'') ERROR_MARKER"
  by (simp add: startswith_def ERROR_MARKER_def lit_def)

text \<open>
  C5 as stated fails: a generated statement that names the table \<^verbatim>\<open>users\<close>, which is
  not in the allow-list, is executed by \<^verbatim>\<open>/api/ask\<close> and its rows are returned.
\<close>

theorem ask_executes_any_table_counterexample:
  "\<not> List.member VALID_TABLES (lit ''users'') \<and>
   fst (ask example_world (Some (lit ''list users'')) ready_state) =
     (AnswerBody (lit ''list users'') (lit ''SELECT * FROM users;'') [], 200) \<and>
   last (trace (snd (ask example_world (Some (lit ''list users'')) ready_state))) =
     Execute (lit ''SELECT * FROM users;'')"
proof -
  have q: "lit ''list users'' \<noteq> []" by (simp add: lit_def)
  have v: "\<not> List.member VALID_TABLES (lit ''users'')"
    by (simp add: VALID_TABLES_def lit_def)
  have x: "execute example_world sql = Inr []" for sql
    by (simp add: example_world_def)
  show ?thesis
    using q v by (simp add: ask_def get_sql_list_users users_not_marked x)
qed

text \<open>
  C5, amended. The allow-list guards the route \<^verbatim>\<open>/api/data/<table_name>\<close>: a table name
  outside the three names is answered with status 400 and nothing is executed. The route
  \<^verbatim>\<open>/api/ask\<close> does not look at the tables of the generated statement: unless the
  statement starts with the error marker, it is handed to the database as it is.
\<close>

theorem allow_list_guards_table_route:
  "(\<not> List.member VALID_TABLES table_name \<longrightarrow>
      get_table_data w table_name s = ((ErrorBody (lit ''Invalid table name.''), 400), s)) \<and>
   (q \<noteq> [] \<and> get_sql_from_question w q s = (sql, s1) \<and> \<not> startswith sql ERROR_MARKER \<longrightarrow>
      snd (ask w (Some q) s) = s1\<lparr>trace := trace s1 @ [Execute sql]\<rparr>)"
  by (auto simp: get_table_data_def ask_def Let_def split: sum.splits)

theorem allow_list_guards_table_route_witness:
  "\<not> List.member VALID_TABLES (lit ''users'') \<and>
   get_table_data example_world (lit ''users'') ready_state =
     ((ErrorBody (lit ''Invalid table name.''), 400), ready_state) \<and>
   lit ''list users'' \<noteq> [] \<and>
   \<not> startswith (fst (get_sql_from_question example_world (lit ''list users'') ready_state))
       ERROR_MARKER \<and>
   snd (ask example_world (Some (lit ''list users'')) ready_state) =
     (snd (get_sql_from_question example_world (lit ''list users'') ready_state))
       \<lparr>trace := trace (snd (get_sql_from_question example_world (lit ''list users'') ready_state))
          @ [Execute (fst (get_sql_from_question example_world (lit ''list users'') ready_state))]\<rparr>"
proof -
  let ?r = "get_sql_from_question example_world (lit ''list users'') ready_state"
  have v: "\<not> List.member VALID_TABLES (lit ''users'')"
    by (simp add: VALID_TABLES_def lit_def)
  have q: "lit ''list users'' \<noteq> []" by (simp add: lit_def)
  have p: "?r = (fst ?r, snd ?r)" by simp
  have m: "\<not> startswith (fst ?r) ERROR_MARKER"
    by (simp add: get_sql_list_users users_not_marked)
  show ?thesis
    using v q p m
      allow_list_guards_table_route [of "lit ''users''" example_world ready_state
        "lit ''list users''" "fst ?r" "snd ?r"]
    by blast
qed

text \<open>
  C6 as stated fails for \<^verbatim>\<open>/api/ask\<close>: a question that is a single space is not empty,
  the route passes it on, and the index is searched.
\<close>

theorem ask_searches_for_blank_counterexample:
  "strip (lit '' '') = [] \<and>
   hd (trace (snd (ask example_world (Some (lit '' '')) ready_state))) = Search [ [1] ] 3"
proof -
  have e: "encode example_world [lit '' ''] = Inr [ [real 1] ]"
    by (simp add: example_world_def lit_def)
  have g: "generate_content example_world p = Inr (lit ''SELECT * FROM users;'')" for p
    by (simp add: example_world_def)
  have ex: "execute example_world sql = Inr []" for sql
    by (simp add: example_world_def)
  have x: "extract_sql (lit ''SELECT * FROM users;'') = lit ''SELECT * FROM users;''"
    by (simp add: extract_sql_def strip_def strip_chars_def strip_where_def lit_def isspace_def)
  have r: "retrieve example_world (lit '' '') ready_state =
     (Inr (CONTEXT_HEADER @ bullet (lit ''A'') @ bullet (lit ''C'') @ bullet (lit ''B'')),
      ready_state\<lparr>trace := [Search [ [1] ] 3]\<rparr>)"
    using retrieve_ready [OF e refl] by (simp add: knn_index3_1 context_021)
  have s: "strip (lit '' '') = []"
    by (simp add: strip_def strip_where_def lit_def isspace_def)
  have q: "lit '' '' \<noteq> []" by (simp add: lit_def)
  show ?thesis
    using q s
    by (simp add: ready_initialised ask_def get_sql_from_question_def get_sql_try_def r assemble_prompt_eq g x
        users_not_marked ex)
qed

text \<open>
  C6, amended. \<^verbatim>\<open>/api/ask\<close> rejects a missing or empty question with status 400, and
  the button handler of the form rejects every empty or white-space-only question
  without sending a request; in each case the state, and with it the record of the
  searches made, is unchanged.
\<close>

theorem blank_question_rejected:
  "ask w None s = ((ErrorBody (lit ''No question provided.''), 400), s) \<and>
   ask w (Some []) s = ((ErrorBody (lit ''No question provided.''), 400), s) \<and>
   (strip question = [] \<longrightarrow>
      ask_button w question s = (Warning ([0x26A0, 0xFE0F] @ lit '' Please enter a question.''), s))"
  by (simp add: ask_def ask_button_def)

theorem blank_question_rejected_witness:
  "strip [0x20, 0x09, 0xA0] = [] \<and>
   ask_button example_world [0x20, 0x09, 0xA0] ready_state =
     (Warning ([0x26A0, 0xFE0F] @ lit '' Please enter a question.''), ready_state)"
proof -
  have s: "strip [0x20, 0x09, 0xA0] = []"
    by (simp add: strip_def strip_where_def isspace_def)
  show ?thesis
    using s blank_question_rejected [of example_world ready_state "[0x20, 0x09, 0xA0]"] by blast
qed



section \<open>The prompt that is sent\<close>

lemma index_search_row:
  assumes "index_search L2sqr ix x k = Inr (r # rs)"
  shows "length r = k \<and> sorted (map fst r)"
proof -
  from assms have "map (\<lambda>q. knn L2sqr ix q k) x = r # rs"
    by (simp add: index_search_def split: if_splits)
  then obtain q where "r = knn L2sqr ix q k" by (cases x) auto
  then show ?thesis by (simp add: length_knn sorted_knn)
qed

lemma template_parts:
  "SYSTEM_PROMPT_TEMPLATE = TEMPLATE_HEAD @ lit ''{retrieved_context}'' @ TEMPLATE_TAIL"
  by (simp add: SYSTEM_PROMPT_TEMPLATE_def PLACEHOLDER_NAME_def lit_def)

lemma template_lengths: "length TEMPLATE_HEAD = 930" "length TEMPLATE_TAIL = 320"
  by (simp_all add: TEMPLATE_HEAD_def TEMPLATE_TAIL_def lit_def)

text \<open>
  C9. In an initialised process, let the encoder return \<open>x\<close> for the question, let \<open>r\<close> be
  the first row that the search with \<open>k = 3\<close> returns for \<open>x\<close>, and let \<open>docs\<close> be the
  documents of \<^verbatim>\<open>context_texts\<close> that the labels of \<open>r\<close> select. Then the body of the
  pipeline sends the generative model exactly this prompt: the text of the template
  before its placeholder; the context block, which is the header line followed by one
  line \<^verbatim>\<open>- doc\<close> for each of the three documents, in the order of \<open>r\<close>, which is
  non-decreasing in distance; the text of the template after the placeholder; the label
  \<^verbatim>\<open>User Question: \<close> with the whole question; and the label \<^verbatim>\<open>SQL Query:\<close>. The
  placeholder \<^verbatim>\<open>{retrieved_context}\<close> is the only replacement field of the template. What
  the pipeline returns is the model's answer to that prompt, passed through the extractor.
\<close>

theorem prompt_holds_context_and_question:
  assumes "embedding_model s = Some m" and "faiss_index s = Some ix"
    and "encode w [question] = Inr x"
    and "index_search (fvec_L2sqr w) ix x 3 = Inr (r # rs)"
    and "map (getitem (context_texts s)) (map snd r) = map Inr docs"
  shows "(let prompt =
            TEMPLATE_HEAD
            @ [10, 10] @ lit ''Relevant Context for your question:'' @ [10]
            @ concat (map (\<lambda>doc. lit ''- '' @ doc @ [10]) docs)
            @ TEMPLATE_TAIL
            @ [10, 10] @ lit ''User Question: '' @ question @ [10] @ lit ''SQL Query:''
          in get_sql_try w question s =
               (map_sum id extract_sql (generate_content w prompt),
                s\<lparr>trace := trace s @ [Search x 3, Generate prompt]\<rparr>)) \<and>
         length docs = 3 \<and> sorted (map fst r) \<and>
         SYSTEM_PROMPT_TEMPLATE = TEMPLATE_HEAD @ lit ''{retrieved_context}'' @ TEMPLATE_TAIL \<and>
         0x7B \<notin> set TEMPLATE_HEAD \<and> 0x7B \<notin> set TEMPLATE_TAIL"
proof -
  let ?block = "[10, 10] @ lit ''Relevant Context for your question:'' @ [10]
            @ concat (map (\<lambda>doc. lit ''- '' @ doc @ [10]) docs)"
  let ?prompt = "TEMPLATE_HEAD @ ?block @ TEMPLATE_TAIL
            @ [10, 10] @ lit ''User Question: '' @ question @ [10] @ lit ''SQL Query:''"
  let ?s1 = "s\<lparr>trace := trace s @ [Search x 3]\<rparr>"
  have row: "length r = 3" "sorted (map fst r)"
    using index_search_row [OF assms(4)] by simp_all
  have "length (map Inr docs :: (exn + str) list) = length (map snd r)"
    using assms(5) by (metis length_map)
  then have three: "length docs = 3" using row(1) by simp
  have search: "similarity_search w question s = (Inr (r # rs), ?s1)"
    using assms(1-4) by (simp add: similarity_search_ready)
  have "retrieved_context (context_texts ?s1) (map snd r) =
      Inr (CONTEXT_HEADER @ concat (map bullet docs))"
    using assms(5) by (simp add: retrieved_context_def add_bullets_docs)
  moreover have "CONTEXT_HEADER @ concat (map bullet docs) = ?block"
    by (simp add: CONTEXT_HEADER_def bullet_def cong: map_cong)
  ultimately have ctx: "retrieved_context (context_texts ?s1) (map snd r) = Inr ?block"
    by simp
  have retr: "retrieve w question s = (Inr ?block, ?s1)"
    unfolding retrieve_def search using ctx by (simp add: getitem_def)
  have body: "get_sql_try w question s =
      (map_sum id extract_sql (generate_content w ?prompt),
       s\<lparr>trace := trace s @ [Search x 3, Generate ?prompt]\<rparr>)"
    unfolding get_sql_try_def
    by (cases "generate_content w ?prompt")
      (simp_all add: assms(1,2) retr assemble_prompt_eq QUESTION_LABEL_def SQL_LABEL_def Let_def)
  have h: "0x7B \<notin> set TEMPLATE_HEAD" "0x7B \<notin> set TEMPLATE_TAIL"
    using head_plain tail_plain by (auto simp: list_all_iff)
  from body three row(2) template_parts h show ?thesis by (simp add: Let_def)
qed

theorem prompt_holds_context_and_question_witness:
  "embedding_model ready_state = Some Encoder \<and> faiss_index ready_state = Some index3 \<and>
   encode example_world [lit ''list users''] = Inr [ [10] ] \<and>
   index_search (fvec_L2sqr example_world) index3 [ [10] ] 3 =
     Inr ([(16, 1), (49, 2), (100, 0)] # []) \<and>
   map (getitem (context_texts ready_state)) (map snd [(16::real, 1::int), (49, 2), (100, 0)]) =
     map Inr [lit ''B'', lit ''C'', lit ''A''] \<and>
   get_sql_try example_world (lit ''list users'') ready_state =
     (Inr (lit ''SELECT * FROM users;''),
      ready_state\<lparr>trace :=
        [Search [ [10] ] 3,
         Generate
           (TEMPLATE_HEAD
            @ [10, 10] @ lit ''Relevant Context for your question:'' @ [10]
            @ lit ''- B'' @ [10] @ lit ''- C'' @ [10] @ lit ''- A'' @ [10]
            @ TEMPLATE_TAIL
            @ [10, 10] @ lit ''User Question: list users'' @ [10] @ lit ''SQL Query:'')]\<rparr>) \<and>
   length (TEMPLATE_HEAD
            @ [10, 10] @ lit ''Relevant Context for your question:'' @ [10]
            @ lit ''- B'' @ [10] @ lit ''- C'' @ [10] @ lit ''- A'' @ [10]
            @ TEMPLATE_TAIL
            @ [10, 10] @ lit ''User Question: list users'' @ [10] @ lit ''SQL Query:'') = 1338"
proof -
  have h1: "embedding_model ready_state = Some Encoder" by (simp add: ready_state_def)
  have h2: "faiss_index ready_state = Some index3" by (simp add: ready_state_def)
  have h3: "encode example_world [lit ''list users''] = Inr [ [10] ]"
    by (simp add: example_world_def lit_def)
  have h4: "index_search (fvec_L2sqr example_world) index3 [ [10] ] 3 =
      Inr ([(16, 1), (49, 2), (100, 0)] # [])"
    using knn_index3_10 by (simp add: index_search_def index3_def)
  have h5: "map (getitem (context_texts ready_state))
      (map snd [(16::real, 1::int), (49, 2), (100, 0)]) = map Inr [lit ''B'', lit ''C'', lit ''A'']"
    by (simp add: ready_state_def texts3_def getitem_def)
  have g: "generate_content example_world p = Inr (lit ''SELECT * FROM users;'')" for p
    by (simp add: example_world_def)
  have x: "extract_sql (lit ''SELECT * FROM users;'') = lit ''SELECT * FROM users;''"
    by (simp add: extract_sql_def strip_def strip_chars_def strip_where_def lit_def isspace_def)
  have t: "trace ready_state = []" by (simp add: ready_state_def)
  have l: "length (TEMPLATE_HEAD
            @ [10, 10] @ lit ''Relevant Context for your question:'' @ [10]
            @ lit ''- B'' @ [10] @ lit ''- C'' @ [10] @ lit ''- A'' @ [10]
            @ TEMPLATE_TAIL
            @ [10, 10] @ lit ''User Question: list users'' @ [10] @ lit ''SQL Query:'') = 1338"
    by (simp add: template_lengths lit_def)
  have "get_sql_try example_world (lit ''list users'') ready_state =
     (Inr (lit ''SELECT * FROM users;''),
      ready_state\<lparr>trace :=
        [Search [ [10] ] 3,
         Generate
           (TEMPLATE_HEAD
            @ [10, 10] @ lit ''Relevant Context for your question:'' @ [10]
            @ lit ''- B'' @ [10] @ lit ''- C'' @ [10] @ lit ''- A'' @ [10]
            @ TEMPLATE_TAIL
            @ [10, 10] @ lit ''User Question: list users'' @ [10] @ lit ''SQL Query:'')]\<rparr>)"
  proof -
    have "get_sql_try example_world (lit ''list users'') ready_state =
       (Inr (lit ''SELECT * FROM users;''),
        ready_state\<lparr>trace :=
          [Search [ [10] ] 3,
           Generate
             (TEMPLATE_HEAD
              @ [10, 10] @ lit ''Relevant Context for your question:'' @ [10]
              @ concat (map (\<lambda>doc. lit ''- '' @ doc @ [10]) [lit ''B'', lit ''C'', lit ''A''])
              @ TEMPLATE_TAIL
              @ [10, 10] @ lit ''User Question: '' @ lit ''list users'' @ [10]
              @ lit ''SQL Query:'')]\<rparr>)"
      using prompt_holds_context_and_question [OF h1 h2 h3 h4 h5]
      by (simp add: Let_def g x t)
    then show ?thesis by (simp add: lit_def)
  qed
  with h1 h2 h3 h4 h5 l show ?thesis by blast
qed

section \<open>The eligibility column\<close>

lemma dtype_to_numeric: "dtype (to_numeric pd col) \<noteq> Object"
  by (cases "dtype col") (simp_all add: to_numeric_def)

text \<open>
  After the general conversion no column has the object dtype, so the mapping of the
  eligibility strings at line 106 is never applied.
\<close>

lemma dtype_convert_column: "dtype (convert_column pd col) \<noteq> Object"
proof -
  have "dtype (fillna v c) = dtype c" for v c by (simp add: fillna_def)
  then show ?thesis
    by (simp add: convert_column_def Let_def dtype_to_numeric)
qed

lemma map_eligibility_skipped:
  "map_eligibility pd (convert_column pd col) = convert_column pd col"
  by (simp add: map_eligibility_def dtype_convert_column)

text \<open>
  C10. The strings \<open>yes\<close> and \<open>TRUE\<close> of the eligibility column are to become 1. The
  general conversion of lines 41--58 runs first: it turns every string that is not a
  number into NaN and then into 0, and leaves a numeric column, so the table rule finds
  no object column and every such value ends as 0.
\<close>

theorem eligibility_strings_become_zero:
  assumes "to_double pd (lit ''yes'') = None" and "to_double pd (lit ''no'') = None"
    and "to_double pd (lit ''TRUE'') = None"
  shows "preprocess_df pd eligibility_frame (lit ''eligibility'') =
           [(lit ''rank'', \<lparr>dtype = Numeric, cells = [Num 1, Num 2, Num 3]\<rparr>),
            (lit ''eligibility'', \<lparr>dtype = Numeric, cells = [Num 0, Num 0, Num 0]\<rparr>)]"
proof -
  have c: "clean (lit ''yes'') = lit ''yes''" "clean (lit ''no'') = lit ''no''"
    "clean (lit ''TRUE'') = lit ''TRUE''"
    by (simp_all add: clean_def lit_def)
  have n: "lower (replace_space (strip (lit ''Rank''))) = lit ''rank''"
    "lower (replace_space (strip (lit ''Eligibility''))) = lit ''eligibility''"
    by (simp_all add: lower_def replace_space_def strip_def strip_where_def isspace_def lit_def)
  have r: "convert_column pd \<lparr>dtype = Numeric, cells = [Num 1, Num 2, Num 3]\<rparr> =
      \<lparr>dtype = Numeric, cells = [Num 1, Num 2, Num 3]\<rparr>"
    by (simp add: convert_column_def to_numeric_def Let_def)
  have e: "convert_column pd
      \<lparr>dtype = Object, cells = [Str (lit ''yes''), Str (lit ''no''), Str (lit ''TRUE'')]\<rparr> =
      \<lparr>dtype = Numeric, cells = [Num 0, Num 0, Num 0]\<rparr>"
    using assms
    by (simp add: convert_column_def to_numeric_def Let_def c fillna_def is_numeric_dtype_def)
  have k: "lit ''rank'' \<noteq> lit ''eligibility''" "lit ''rank'' \<noteq> lit ''item_id''"
    "lit ''rank'' \<noteq> lit ''eligibility_datetime_utc''"
    "lit ''eligibility'' \<noteq> lit ''item_id''"
    "lit ''eligibility'' \<noteq> lit ''eligibility_datetime_utc''"
    "lit ''eligibility'' \<noteq> lit ''total_sales''" "lit ''eligibility'' \<noteq> lit ''ad_sales''"
    by (simp_all add: lit_def)
  have t: "table_rules pd (lit ''eligibility'')
      [(lit ''rank'', \<lparr>dtype = Numeric, cells = [Num 1, Num 2, Num 3]\<rparr>),
       (lit ''eligibility'', \<lparr>dtype = Numeric, cells = [Num 0, Num 0, Num 0]\<rparr>)] =
      [(lit ''rank'', \<lparr>dtype = Numeric, cells = [Num 1, Num 2, Num 3]\<rparr>),
       (lit ''eligibility'', \<lparr>dtype = Numeric, cells = [Num 0, Num 0, Num 0]\<rparr>)]"
    using k by (simp add: table_rules_def modify_column_def map_eligibility_def)
  have d: "drop_duplicates
      [(lit ''rank'', \<lparr>dtype = Numeric, cells = [Num 1, Num 2, Num 3]\<rparr>),
       (lit ''eligibility'', \<lparr>dtype = Numeric, cells = [Num 0, Num 0, Num 0]\<rparr>)] =
      [(lit ''rank'', \<lparr>dtype = Numeric, cells = [Num 1, Num 2, Num 3]\<rparr>),
       (lit ''eligibility'', \<lparr>dtype = Numeric, cells = [Num 0, Num 0, Num 0]\<rparr>)]"
    by (simp add: drop_duplicates_def Let_def)
  show ?thesis
    by (simp add: preprocess_df_def eligibility_frame_def Let_def n r e t d)
qed

theorem eligibility_strings_become_zero_witness:
  "to_double example_pandas (lit ''yes'') = None \<and> to_double example_pandas (lit ''no'') = None \<and>
   to_double example_pandas (lit ''TRUE'') = None \<and>
   preprocess_df example_pandas eligibility_frame (lit ''eligibility'') =
     [(lit ''rank'', \<lparr>dtype = Numeric, cells = [Num 1, Num 2, Num 3]\<rparr>),
      (lit ''eligibility'', \<lparr>dtype = Numeric, cells = [Num 0, Num 0, Num 0]\<rparr>)]"
proof -
  have h1: "to_double example_pandas (lit ''yes'') = None"
    by (simp add: example_pandas_def lit_def)
  have h2: "to_double example_pandas (lit ''no'') = None"
    by (simp add: example_pandas_def lit_def)
  have h3: "to_double example_pandas (lit ''TRUE'') = None"
    by (simp add: example_pandas_def lit_def)
  show ?thesis
    using h1 h2 h3 eligibility_strings_become_zero [OF h1 h2 h3] by simp
qed


end
